theory Spec2Isabelle
  imports Complex_Main
begin

section \<open>Smart-home simulation: values, messages and the gateway\<close>

text \<open>
  The program is JavaScript. A number is a real number or NaN (rounding and the
  infinities of IEEE doubles are outside the model; the clamps treat an infinity like any
  number beyond the bound), wall-clock readings of
  \<^verbatim>\<open>Date.now()\<close> as a natural number handed to each top-level call, and object
  mutation as explicit state passing: a method takes the object (and the gateway it may
  publish through) and returns the updated ones. The read-only accessors
  (\<^verbatim>\<open>getState\<close>, \<^verbatim>\<open>getMessageLog\<close>, \<^verbatim>\<open>getActivityLog\<close> and the like) and the
  rendering code are not modelled. Characters outside ASCII in string literals (the degree
  sign) are dropped.
\<close>

subsection \<open>JavaScript numbers\<close>

text \<open>
  Numbers that a caller can hand in, or that are computed from such, may be NaN. Constants
  of the program (bounds, rated power, thresholds) and values that only the program
  computes from them stay real.
\<close>

datatype jsnum = Num real | NaN

text \<open>\<^verbatim>\<open>Math.max\<close> and \<^verbatim>\<open>Math.min\<close> of two numbers: NaN when either is NaN.\<close>

fun Math_max :: "jsnum \<Rightarrow> jsnum \<Rightarrow> jsnum" where
  "Math_max (Num a) (Num b) = Num (max a b)"
| "Math_max _ _ = NaN"

fun Math_min :: "jsnum \<Rightarrow> jsnum \<Rightarrow> jsnum" where
  "Math_min (Num a) (Num b) = Num (min a b)"
| "Math_min _ _ = NaN"

text \<open>The comparisons \<^verbatim>\<open><\<close>, \<^verbatim>\<open>>\<close> and \<^verbatim>\<open><=\<close>: false when either side is NaN.\<close>

fun js_lt :: "jsnum \<Rightarrow> jsnum \<Rightarrow> bool" where
  "js_lt (Num a) (Num b) = (a < b)"
| "js_lt _ _ = False"

fun js_gt :: "jsnum \<Rightarrow> jsnum \<Rightarrow> bool" where
  "js_gt (Num a) (Num b) = (a > b)"
| "js_gt _ _ = False"

fun js_le :: "jsnum \<Rightarrow> jsnum \<Rightarrow> bool" where
  "js_le (Num a) (Num b) = (a \<le> b)"
| "js_le _ _ = False"

text \<open>
  \<^verbatim>\<open>*\<close> and \<^verbatim>\<open>/\<close>: NaN when either side is NaN. The program divides by the
  constant 100 only.
\<close>

fun js_mul :: "jsnum \<Rightarrow> jsnum \<Rightarrow> jsnum" where
  "js_mul (Num a) (Num b) = Num (a * b)"
| "js_mul _ _ = NaN"

fun js_div :: "jsnum \<Rightarrow> jsnum \<Rightarrow> jsnum" where
  "js_div (Num a) (Num b) = Num (a / b)"
| "js_div _ _ = NaN"

text \<open>\<^verbatim>\<open>+\<close> on numbers, with 0 as its unit: NaN when either side is NaN.\<close>

instantiation jsnum :: comm_monoid_add
begin

definition zero_jsnum :: jsnum where
  "zero_jsnum = Num 0"

fun plus_jsnum :: "jsnum \<Rightarrow> jsnum \<Rightarrow> jsnum" where
  "plus_jsnum (Num a) (Num b) = Num (a + b)"
| "plus_jsnum _ _ = NaN"

instance
proof
  fix p q r :: jsnum
  show "p + q = q + p"
    by (induct p q rule: plus_jsnum.induct) simp_all
  show "p + q + r = p + (q + r)"
  proof (cases p)
    case (Num u)
    then show ?thesis by (cases q; cases r; simp)
  next
    case NaN
    then show ?thesis by simp
  qed
  show "0 + p = p"
    unfolding zero_jsnum_def by (cases p; simp)
qed

end

subsection \<open>JavaScript values handed to sensor setters\<close>

text \<open>
  A value is a number, a boolean, or a value of another type (a string, \<^verbatim>\<open>undefined\<close>,
  \<^verbatim>\<open>null\<close>, an object). The program uses a value of another type only through its
  conversions to a number and to a boolean, which \<open>JOther\<close> carries: \<^verbatim>\<open>undefined\<close> is
  \<open>JOther NaN False\<close>, \<^verbatim>\<open>null\<close> is \<open>JOther (Num 0) False\<close>, the string
  \<^verbatim>\<open>'abc'\<close> is \<open>JOther NaN True\<close>. Values whose conversion to a number throws (symbols,
  big integers) are left out.
\<close>

datatype jsval = JNum jsnum | JBool bool | JOther jsnum bool

text \<open>\<^verbatim>\<open>ToNumber\<close>, as applied by \<^verbatim>\<open>Math.min\<close>, \<^verbatim>\<open>Math.max\<close> and the comparison operators.\<close>

fun toNumber :: "jsval \<Rightarrow> jsnum" where
  "toNumber (JNum x) = x"
| "toNumber (JBool b) = Num (if b then 1 else 0)"
| "toNumber (JOther n b) = n"

text \<open>\<^verbatim>\<open>ToBoolean\<close>, as applied by \<^verbatim>\<open>!\<close>, \<^verbatim>\<open>&&\<close> and \<^verbatim>\<open>if\<close>.\<close>

fun truthy :: "jsval \<Rightarrow> bool" where
  "truthy (JNum (Num x)) = (x \<noteq> 0)"
| "truthy (JNum NaN) = False"
| "truthy (JBool b) = b"
| "truthy (JOther n b) = b"

subsection \<open>Message payloads\<close>

text \<open>
  A template literal is kept as its fragments: \<open>ToFixed x d\<close> stands for
  \<^verbatim>\<open>${x.toFixed(d)}\<close> and \<open>Interp n\<close> for \<^verbatim>\<open>${n}\<close>.
\<close>

datatype frag = Lit string | ToFixed jsnum nat | Interp nat

datatype field = Str string | Val jsval | Tpl "frag list"

type_synonym message = "(string \<times> field) list"

type_synonym logEntry = "string \<times> message \<times> nat"

subsection \<open>Insertion-ordered maps (\<^verbatim>\<open>Map\<close>)\<close>

fun Map_has :: "('k \<times> 'v) list \<Rightarrow> 'k \<Rightarrow> bool" where
  "Map_has [] k = False"
| "Map_has ((k', v) # m) k = (if k' = k then True else Map_has m k)"

fun Map_get :: "('k \<times> 'v) list \<Rightarrow> 'k \<Rightarrow> 'v option" where
  "Map_get [] k = None"
| "Map_get ((k', v) # m) k = (if k' = k then Some v else Map_get m k)"

text \<open>\<^verbatim>\<open>Map.set\<close>: an existing key keeps its position, a new key goes last.\<close>

fun Map_set :: "('k \<times> 'v) list \<Rightarrow> 'k \<Rightarrow> 'v \<Rightarrow> ('k \<times> 'v) list" where
  "Map_set [] k v = [(k, v)]"
| "Map_set ((k', v') # m) k v = (if k' = k then (k, v) # m else (k', v') # Map_set m k v)"

fun Map_delete :: "('k \<times> 'v) list \<Rightarrow> 'k \<Rightarrow> ('k \<times> 'v) list" where
  "Map_delete [] k = []"
| "Map_delete ((k', v') # m) k = (if k' = k then m else (k', v') # Map_delete m k)"

subsection \<open>IoTGateway (iot-gateway.js)\<close>

text \<open>
  The registries hold references (\<open>'d\<close>, \<open>'s\<close>) to device and sensor objects.
  A subscriber callback is opaque to the broker; it is named by a number and every
  invocation \<^verbatim>\<open>callback(message, topic)\<close> is recorded, in order, in \<open>delivered\<close>.
  The only callback the program installs writes to the console.
\<close>

record ('d, 's) IoTGateway =
  subscribers :: "(string \<times> nat list) list"
  g_devices :: "(string \<times> 'd) list"
  g_sensors :: "(string \<times> 's) list"
  messageLog :: "logEntry list"
  delivered :: "(nat \<times> message \<times> string) list"

definition IoTGateway_new :: "('d, 's) IoTGateway" where
  "IoTGateway_new =
     \<lparr>subscribers = [], g_devices = [], g_sensors = [], messageLog = [], delivered = []\<rparr>"

definition subscribe :: "string \<Rightarrow> nat \<Rightarrow> ('d, 's) IoTGateway \<Rightarrow> ('d, 's) IoTGateway" where
  "subscribe topic callback g =
     (let subs = (if \<not> Map_has (subscribers g) topic
                  then Map_set (subscribers g) topic [] else subscribers g)
      in g\<lparr>subscribers :=
            Map_set subs topic ((case Map_get subs topic of Some cs \<Rightarrow> cs | None \<Rightarrow> []) @ [callback])\<rparr>)"

text \<open>\<^verbatim>\<open>Array.prototype.shift\<close>: drop the first element.\<close>

definition shift :: "'a list \<Rightarrow> 'a list" where
  "shift xs = (case xs of [] \<Rightarrow> [] | _ # ys \<Rightarrow> ys)"

definition notify :: "(string \<times> nat list) list \<Rightarrow> string \<Rightarrow> message \<Rightarrow> string
    \<Rightarrow> (nat \<times> message \<times> string) list" where
  "notify subs key message topic =
     (if Map_has subs key
      then map (\<lambda>callback. (callback, message, topic))
             (case Map_get subs key of Some cs \<Rightarrow> cs | None \<Rightarrow> [])
      else [])"

definition publish :: "string \<Rightarrow> message \<Rightarrow> nat \<Rightarrow> ('d, 's) IoTGateway \<Rightarrow> ('d, 's) IoTGateway" where
  "publish topic message timestamp g =
     (let log = messageLog g @ [(topic, message, timestamp)];
          log' = (if length log > 100 then shift log else log)
      in g\<lparr>messageLog := log',
            delivered := delivered g @ notify (subscribers g) topic message topic
                           @ notify (subscribers g) ''*'' message topic\<rparr>)"

section \<open>Sensors\<close>

text \<open>
  The base class clamps with \<^verbatim>\<open>Math.max\<close>/\<^verbatim>\<open>Math.min\<close>, so a sensor written through
  it holds a number (possibly NaN); the motion sensor stores whatever it is handed. The record is
  therefore polymorphic in the type of the reading. \<open>s_gateway\<close> tells whether
  \<^verbatim>\<open>this.gateway\<close> refers to the broker (the program has a single one) or is null.
  The fields that only the random \<^verbatim>\<open>simulate()\<close> methods use are left out; every
  \<^verbatim>\<open>simulate()\<close> writes through \<^verbatim>\<open>setValue\<close>.
\<close>

record 'v Sensor =
  s_id :: string
  s_name :: string
  unit :: string
  minValue :: real
  maxValue :: real
  s_value :: 'v
  history :: "('v \<times> nat) list"
  s_gateway :: bool
  updateInterval :: nat

definition Sensor_new :: "string \<Rightarrow> string \<Rightarrow> string \<Rightarrow> real \<Rightarrow> real \<Rightarrow> jsnum Sensor" where
  "Sensor_new i n u lo hi =
     \<lparr>s_id = i, s_name = n, unit = u, minValue = lo, maxValue = hi,
      s_value = Num ((lo + hi) / 2), history = [], s_gateway = False, updateInterval = 2000\<rparr>"

definition Sensor_setValue ::
  "jsval \<Rightarrow> nat \<Rightarrow> jsnum Sensor \<Rightarrow> ('d, 's) IoTGateway \<Rightarrow> jsnum Sensor \<times> ('d, 's) IoTGateway" where
  "Sensor_setValue newValue now s g =
     (let v = Math_max (Num (minValue s)) (Math_min (Num (maxValue s)) (toNumber newValue));
          h = history s @ [(v, now)];
          h' = (if length h > 60 then shift h else h);
          s' = s\<lparr>s_value := v, history := h'\<rparr>
      in (s',
          if s_gateway s
          then publish (''sensor/'' @ s_id s @ ''/reading'')
                 [(''id'', Str (s_id s)), (''name'', Str (s_name s)), (''value'', Val (JNum v)),
                  (''unit'', Str (unit s)), (''timestamp'', Val (JNum (Num (real now))))] now g
          else g))"

text \<open>The unit of the temperature sensor is the degree sign followed by C; only ASCII is kept.\<close>

definition TemperatureSensor_new :: "jsnum Sensor" where
  "TemperatureSensor_new = (Sensor_new ''temperature'' ''Temperature'' ''C'' 15 40)\<lparr>s_value := Num 25\<rparr>"

definition HumiditySensor_new :: "jsnum Sensor" where
  "HumiditySensor_new = (Sensor_new ''humidity'' ''Humidity'' ''%'' 20 80)\<lparr>s_value := Num 50\<rparr>"

definition PowerSensor_new :: "jsnum Sensor" where
  "PowerSensor_new = (Sensor_new ''power'' ''Power Consumption'' ''W'' 0 5000)\<lparr>s_value := Num 0\<rparr>"

definition DistanceSensor_new :: "jsnum Sensor" where
  "DistanceSensor_new = (Sensor_new ''distance'' ''Distance'' ''cm'' 0 500)\<lparr>s_value := Num 200\<rparr>"

definition LightSensor_new :: "jsnum Sensor" where
  "LightSensor_new = (Sensor_new ''light'' ''Ambient Light'' ''lux'' 0 1000)\<lparr>s_value := Num 300\<rparr>"

text \<open>
  \<^verbatim>\<open>MotionSensor\<close>: the base constructor runs with bounds 0 and 1, then the reading is
  overwritten with \<^verbatim>\<open>false\<close>. Its \<^verbatim>\<open>setValue\<close> overrides the base method.
\<close>

definition MotionSensor_new :: "jsval Sensor" where
  "MotionSensor_new =
     (let b = Sensor_new ''motion'' ''Motion'' '''' 0 1
      in \<lparr>s_id = s_id b, s_name = s_name b, unit = unit b, minValue = minValue b,
          maxValue = maxValue b, s_value = JBool False, history = [],
          s_gateway = s_gateway b, updateInterval = updateInterval b\<rparr>)"

definition MotionSensor_setValue ::
  "jsval \<Rightarrow> nat \<Rightarrow> jsval Sensor \<Rightarrow> ('d, 's) IoTGateway \<Rightarrow> jsval Sensor \<times> ('d, 's) IoTGateway" where
  "MotionSensor_setValue detected now s g =
     (let s' = s\<lparr>s_value := detected\<rparr>
      in (s',
          if s_gateway s
          then publish (''sensor/'' @ s_id s @ ''/reading'')
                 [(''id'', Str (s_id s)), (''name'', Str (s_name s)), (''value'', Val detected),
                  (''detected'', Val detected), (''timestamp'', Val (JNum (Num (real now))))] now g
          else g))"

section \<open>Devices (devices.js)\<close>

text \<open>
  \<open>d_gateway\<close> tells whether \<^verbatim>\<open>this.gateway\<close> refers to the broker or is null.
  Subclasses extend the base record. \<^verbatim>\<open>getCurrentPowerConsumption\<close> is overridden in
  every subclass, so the base-class methods that reach it through \<^verbatim>\<open>this\<close> take
  the override as their first argument.
\<close>

record Device =
  d_id :: string
  d_name :: string
  isOn :: bool
  maxPowerWatts :: real
  d_gateway :: bool

record Light = Device +
  brightness :: jsnum

record AirConditioner = Device +
  mode :: string
  targetTemperature :: jsnum
  fanSpeed :: string

record WaterHeater = Device +
  wh_targetTemperature :: jsnum
  currentWaterTemp :: real
  isHeating :: bool

definition Device_getCurrentPowerConsumption :: "'a Device_scheme \<Rightarrow> jsnum" where
  "Device_getCurrentPowerConsumption d = (if isOn d then Num (maxPowerWatts d) else Num 0)"

definition onStateChange ::
  "('a Device_scheme \<Rightarrow> jsnum) \<Rightarrow> nat \<Rightarrow> 'a Device_scheme \<Rightarrow> ('d, 's) IoTGateway
    \<Rightarrow> ('d, 's) IoTGateway" where
  "onStateChange consumption now d g =
     (if d_gateway d
      then publish (''device/'' @ d_id d @ ''/state'')
             [(''id'', Str (d_id d)), (''name'', Str (d_name d)), (''isOn'', Val (JBool (isOn d))),
              (''power'', Val (JNum (consumption d)))] now g
      else g)"

definition turnOn ::
  "('a Device_scheme \<Rightarrow> jsnum) \<Rightarrow> nat \<Rightarrow> 'a Device_scheme \<Rightarrow> ('d, 's) IoTGateway
    \<Rightarrow> 'a Device_scheme \<times> ('d, 's) IoTGateway" where
  "turnOn consumption now d g =
     (if \<not> isOn d
      then (let d' = d\<lparr>isOn := True\<rparr> in (d', onStateChange consumption now d' g))
      else (d, g))"

definition turnOff ::
  "('a Device_scheme \<Rightarrow> jsnum) \<Rightarrow> nat \<Rightarrow> 'a Device_scheme \<Rightarrow> ('d, 's) IoTGateway
    \<Rightarrow> 'a Device_scheme \<times> ('d, 's) IoTGateway" where
  "turnOff consumption now d g =
     (if isOn d
      then (let d' = d\<lparr>isOn := False\<rparr> in (d', onStateChange consumption now d' g))
      else (d, g))"

definition toggle ::
  "('a Device_scheme \<Rightarrow> jsnum) \<Rightarrow> nat \<Rightarrow> 'a Device_scheme \<Rightarrow> ('d, 's) IoTGateway
    \<Rightarrow> 'a Device_scheme \<times> ('d, 's) IoTGateway" where
  "toggle consumption now d g = (if isOn d then turnOff consumption now d g else turnOn consumption now d g)"

subsection \<open>Light\<close>

definition Light_new :: "string \<Rightarrow> string \<Rightarrow> Light" where
  "Light_new i n =
     \<lparr>d_id = i, d_name = n, isOn = False, maxPowerWatts = 60, d_gateway = False,
      brightness = Num 100\<rparr>"

definition setBrightness ::
  "jsnum \<Rightarrow> nat \<Rightarrow> Light \<Rightarrow> ('d, 's) IoTGateway \<Rightarrow> Light \<times> ('d, 's) IoTGateway" where
  "setBrightness level now d g =
     (let d' = d\<lparr>brightness := Math_max (Num 0) (Math_min (Num 100) level)\<rparr>
      in (d',
          if d_gateway d'
          then publish (''device/'' @ d_id d' @ ''/brightness'')
                 [(''id'', Str (d_id d')), (''brightness'', Val (JNum (brightness d')))] now g
          else g))"

definition Light_getCurrentPowerConsumption :: "Light \<Rightarrow> jsnum" where
  "Light_getCurrentPowerConsumption d =
     (if \<not> isOn d then Num 0
      else js_div (js_mul (Num (maxPowerWatts d)) (brightness d)) (Num 100))"

subsection \<open>Air conditioner\<close>

definition AirConditioner_new :: "string \<Rightarrow> string \<Rightarrow> AirConditioner" where
  "AirConditioner_new i n =
     \<lparr>d_id = i, d_name = n, isOn = False, maxPowerWatts = 1500, d_gateway = False,
      mode = ''cool'', targetTemperature = Num 24, fanSpeed = ''auto''\<rparr>"

definition validModes :: "string list" where
  "validModes = [''cool'', ''heat'', ''auto'', ''fan'']"

definition validSpeeds :: "string list" where
  "validSpeeds = [''low'', ''medium'', ''high'', ''auto'']"

text \<open>\<^verbatim>\<open>Array.prototype.includes\<close>.\<close>

fun Array_includes :: "'a list \<Rightarrow> 'a \<Rightarrow> bool" where
  "Array_includes [] x = False"
| "Array_includes (y # ys) x = (if y = x then True else Array_includes ys x)"

definition setMode ::
  "string \<Rightarrow> nat \<Rightarrow> AirConditioner \<Rightarrow> ('d, 's) IoTGateway
    \<Rightarrow> AirConditioner \<times> ('d, 's) IoTGateway" where
  "setMode m now d g =
     (if Array_includes validModes m
      then (let d' = d\<lparr>mode := m\<rparr>
            in (d',
                if d_gateway d'
                then publish (''device/'' @ d_id d' @ ''/mode'')
                       [(''id'', Str (d_id d')), (''mode'', Str (mode d'))] now g
                else g))
      else (d, g))"

definition setTargetTemperature ::
  "jsnum \<Rightarrow> nat \<Rightarrow> AirConditioner \<Rightarrow> ('d, 's) IoTGateway
    \<Rightarrow> AirConditioner \<times> ('d, 's) IoTGateway" where
  "setTargetTemperature temp now d g =
     (let d' = d\<lparr>targetTemperature := Math_max (Num 16) (Math_min (Num 30) temp)\<rparr>
      in (d',
          if d_gateway d'
          then publish (''device/'' @ d_id d' @ ''/target-temp'')
                 [(''id'', Str (d_id d')),
                  (''targetTemperature'', Val (JNum (targetTemperature d')))] now g
          else g))"

definition setFanSpeed ::
  "string \<Rightarrow> AirConditioner \<Rightarrow> ('d, 's) IoTGateway \<Rightarrow> AirConditioner \<times> ('d, 's) IoTGateway" where
  "setFanSpeed speed d g =
     (if Array_includes validSpeeds speed then (d\<lparr>fanSpeed := speed\<rparr>, g) else (d, g))"

definition modeMultiplier :: "(string \<times> real) list" where
  "modeMultiplier = [(''cool'', 1.0), (''heat'', 1.2), (''auto'', 0.8), (''fan'', 0.1)]"

text \<open>
  \<^verbatim>\<open>modeMultiplier[this.mode] || 1\<close>: a missing key reads as \<^verbatim>\<open>undefined\<close> and a
  zero entry is falsy; both fall back to 1.
\<close>

definition multiplierOrDefault :: "string \<Rightarrow> real" where
  "multiplierOrDefault m =
     (case Map_get modeMultiplier m of
        None \<Rightarrow> 1
      | Some k \<Rightarrow> (if k = 0 then 1 else k))"

definition AirConditioner_getCurrentPowerConsumption :: "AirConditioner \<Rightarrow> jsnum" where
  "AirConditioner_getCurrentPowerConsumption d =
     (if \<not> isOn d then Num 0 else Num (maxPowerWatts d * multiplierOrDefault (mode d)))"

subsection \<open>Water heater\<close>

definition WaterHeater_new :: "string \<Rightarrow> string \<Rightarrow> WaterHeater" where
  "WaterHeater_new i n =
     \<lparr>d_id = i, d_name = n, isOn = False, maxPowerWatts = 2000, d_gateway = False,
      wh_targetTemperature = Num 50, currentWaterTemp = 25, isHeating = False\<rparr>"

definition WaterHeater_setTargetTemperature ::
  "jsnum \<Rightarrow> nat \<Rightarrow> WaterHeater \<Rightarrow> ('d, 's) IoTGateway \<Rightarrow> WaterHeater \<times> ('d, 's) IoTGateway" where
  "WaterHeater_setTargetTemperature temp now d g =
     (let d' = d\<lparr>wh_targetTemperature := Math_max (Num 30) (Math_min (Num 70) temp)\<rparr>
      in (d',
          if d_gateway d'
          then publish (''device/'' @ d_id d' @ ''/target-temp'')
                 [(''id'', Str (d_id d')),
                  (''targetTemperature'', Val (JNum (wh_targetTemperature d')))] now g
          else g))"

definition update :: "WaterHeater \<Rightarrow> WaterHeater" where
  "update d =
     (if isOn d
      then (if js_lt (Num (currentWaterTemp d)) (wh_targetTemperature d)
            then d\<lparr>currentWaterTemp := currentWaterTemp d + 0.5, isHeating := True\<rparr>
            else d\<lparr>isHeating := False\<rparr>)
      else (if currentWaterTemp d > 25
            then d\<lparr>currentWaterTemp := currentWaterTemp d - 0.1, isHeating := False\<rparr>
            else d\<lparr>isHeating := False\<rparr>))"

definition WaterHeater_getCurrentPowerConsumption :: "WaterHeater \<Rightarrow> jsnum" where
  "WaterHeater_getCurrentPowerConsumption d =
     (if \<not> isOn d then Num 0 else if isHeating d then Num (maxPowerWatts d) else Num 50)"

subsection \<open>Objects of any device class\<close>

datatype device_obj = LightObj Light | AirConditionerObj AirConditioner | WaterHeaterObj WaterHeater

text \<open>Dynamic dispatch of \<^verbatim>\<open>device.getCurrentPowerConsumption()\<close>.\<close>

fun getCurrentPowerConsumption :: "device_obj \<Rightarrow> jsnum" where
  "getCurrentPowerConsumption (LightObj d) = Light_getCurrentPowerConsumption d"
| "getCurrentPowerConsumption (AirConditionerObj d) = AirConditioner_getCurrentPowerConsumption d"
| "getCurrentPowerConsumption (WaterHeaterObj d) = WaterHeater_getCurrentPowerConsumption d"

fun obj_id :: "device_obj \<Rightarrow> string" where
  "obj_id (LightObj d) = d_id d"
| "obj_id (AirConditionerObj d) = d_id d"
| "obj_id (WaterHeaterObj d) = d_id d"

fun obj_name :: "device_obj \<Rightarrow> string" where
  "obj_name (LightObj d) = d_name d"
| "obj_name (AirConditionerObj d) = d_name d"
| "obj_name (WaterHeaterObj d) = d_name d"

fun obj_isOn :: "device_obj \<Rightarrow> bool" where
  "obj_isOn (LightObj d) = isOn d"
| "obj_isOn (AirConditionerObj d) = isOn d"
| "obj_isOn (WaterHeaterObj d) = isOn d"

subsection \<open>Power read-outs of the gateway\<close>

text \<open>
  \<^verbatim>\<open>this.devices.forEach\<close> visits the registry in insertion order and reads every
  device through its reference; \<open>heap\<close> resolves a reference to the object's current
  state. The loop adds into the running \<^verbatim>\<open>total\<close> (here \<open>acc\<close>).
\<close>

fun sumPower :: "('d \<Rightarrow> device_obj) \<Rightarrow> jsnum \<Rightarrow> (string \<times> 'd) list \<Rightarrow> jsnum" where
  "sumPower heap acc [] = acc"
| "sumPower heap acc ((k, r) # m) =
     sumPower heap (acc + getCurrentPowerConsumption (heap r)) m"

definition getTotalPowerConsumption :: "('d \<Rightarrow> device_obj) \<Rightarrow> ('d, 's) IoTGateway \<Rightarrow> jsnum" where
  "getTotalPowerConsumption heap g = sumPower heap (Num 0) (g_devices g)"

definition getPowerBreakdown ::
  "('d \<Rightarrow> device_obj) \<Rightarrow> ('d, 's) IoTGateway \<Rightarrow> (string \<times> string \<times> jsnum \<times> bool) list" where
  "getPowerBreakdown heap g =
     map (\<lambda>(k, r). (obj_id (heap r), obj_name (heap r),
                     getCurrentPowerConsumption (heap r), obj_isOn (heap r))) (g_devices g)"

section \<open>The program's global objects\<close>

text \<open>
  \<^verbatim>\<open>const sensors = {...}\<close>, \<^verbatim>\<open>const devices = {...}\<close> and
  \<^verbatim>\<open>const gateway = new IoTGateway()\<close>. These are the only device, sensor and gateway
  objects the program creates, so a reference held by the gateway's registries names one
  of them.
\<close>

record Sensors =
  temperature :: "jsnum Sensor"
  motion :: "jsval Sensor"
  humidity :: "jsnum Sensor"
  powerSensor :: "jsnum Sensor"
  distance :: "jsnum Sensor"
  light :: "jsnum Sensor"

record Devices =
  light1 :: Light
  light2 :: Light
  light3 :: Light
  ac :: AirConditioner
  waterHeater :: WaterHeater

datatype device_ref = Ref_light1 | Ref_light2 | Ref_light3 | Ref_ac | Ref_waterHeater

datatype sensor_ref =
  Ref_temperature | Ref_motion | Ref_humidity | Ref_power | Ref_distance | Ref_light

record World =
  sensors :: Sensors
  devices :: Devices
  gateway :: "(device_ref, sensor_ref) IoTGateway"

definition sensors_new :: Sensors where
  "sensors_new =
     \<lparr>temperature = TemperatureSensor_new, motion = MotionSensor_new,
      humidity = HumiditySensor_new, powerSensor = PowerSensor_new,
      distance = DistanceSensor_new, light = LightSensor_new\<rparr>"

definition devices_new :: Devices where
  "devices_new =
     \<lparr>light1 = Light_new ''light1'' ''Living Room Light'',
      light2 = Light_new ''light2'' ''Bedroom Light'',
      light3 = Light_new ''light3'' ''Kitchen Light'',
      ac = AirConditioner_new ''ac'' ''Air Conditioner'',
      waterHeater = WaterHeater_new ''waterHeater'' ''Water Heater''\<rparr>"

definition World_new :: World where
  "World_new = \<lparr>sensors = sensors_new, devices = devices_new, gateway = IoTGateway_new\<rparr>"

fun deref :: "Devices \<Rightarrow> device_ref \<Rightarrow> device_obj" where
  "deref ds Ref_light1 = LightObj (light1 ds)"
| "deref ds Ref_light2 = LightObj (light2 ds)"
| "deref ds Ref_light3 = LightObj (light3 ds)"
| "deref ds Ref_ac = AirConditionerObj (ac ds)"
| "deref ds Ref_waterHeater = WaterHeaterObj (waterHeater ds)"

text \<open>\<^verbatim>\<open>device.gateway = this\<close> and \<^verbatim>\<open>sensor.gateway = this\<close>.\<close>

fun bindDevice :: "device_ref \<Rightarrow> Devices \<Rightarrow> Devices" where
  "bindDevice Ref_light1 ds = ds\<lparr>light1 := (light1 ds)\<lparr>d_gateway := True\<rparr>\<rparr>"
| "bindDevice Ref_light2 ds = ds\<lparr>light2 := (light2 ds)\<lparr>d_gateway := True\<rparr>\<rparr>"
| "bindDevice Ref_light3 ds = ds\<lparr>light3 := (light3 ds)\<lparr>d_gateway := True\<rparr>\<rparr>"
| "bindDevice Ref_ac ds = ds\<lparr>ac := (ac ds)\<lparr>d_gateway := True\<rparr>\<rparr>"
| "bindDevice Ref_waterHeater ds = ds\<lparr>waterHeater := (waterHeater ds)\<lparr>d_gateway := True\<rparr>\<rparr>"

fun bindSensor :: "sensor_ref \<Rightarrow> Sensors \<Rightarrow> Sensors" where
  "bindSensor Ref_temperature ss = ss\<lparr>temperature := (temperature ss)\<lparr>s_gateway := True\<rparr>\<rparr>"
| "bindSensor Ref_motion ss = ss\<lparr>motion := (motion ss)\<lparr>s_gateway := True\<rparr>\<rparr>"
| "bindSensor Ref_humidity ss = ss\<lparr>humidity := (humidity ss)\<lparr>s_gateway := True\<rparr>\<rparr>"
| "bindSensor Ref_power ss = ss\<lparr>powerSensor := (powerSensor ss)\<lparr>s_gateway := True\<rparr>\<rparr>"
| "bindSensor Ref_distance ss = ss\<lparr>distance := (distance ss)\<lparr>s_gateway := True\<rparr>\<rparr>"
| "bindSensor Ref_light ss = ss\<lparr>light := (light ss)\<lparr>s_gateway := True\<rparr>\<rparr>"

fun sensor_id :: "Sensors \<Rightarrow> sensor_ref \<Rightarrow> string" where
  "sensor_id ss Ref_temperature = s_id (temperature ss)"
| "sensor_id ss Ref_motion = s_id (motion ss)"
| "sensor_id ss Ref_humidity = s_id (humidity ss)"
| "sensor_id ss Ref_power = s_id (powerSensor ss)"
| "sensor_id ss Ref_distance = s_id (distance ss)"
| "sensor_id ss Ref_light = s_id (light ss)"

fun sensor_name :: "Sensors \<Rightarrow> sensor_ref \<Rightarrow> string" where
  "sensor_name ss Ref_temperature = s_name (temperature ss)"
| "sensor_name ss Ref_motion = s_name (motion ss)"
| "sensor_name ss Ref_humidity = s_name (humidity ss)"
| "sensor_name ss Ref_power = s_name (powerSensor ss)"
| "sensor_name ss Ref_distance = s_name (distance ss)"
| "sensor_name ss Ref_light = s_name (light ss)"

definition registerDevice :: "device_ref \<Rightarrow> nat \<Rightarrow> World \<Rightarrow> World" where
  "registerDevice r now w =
     (let dv = deref (devices w) r;
          g1 = (gateway w)\<lparr>g_devices := Map_set (g_devices (gateway w)) (obj_id dv) r\<rparr>;
          ds = bindDevice r (devices w)
      in w\<lparr>devices := ds,
            gateway := publish ''device/registered''
                         [(''deviceId'', Str (obj_id dv)), (''name'', Str (obj_name dv))] now g1\<rparr>)"

definition registerSensor :: "sensor_ref \<Rightarrow> nat \<Rightarrow> World \<Rightarrow> World" where
  "registerSensor r now w =
     (let g1 = (gateway w)\<lparr>g_sensors := Map_set (g_sensors (gateway w)) (sensor_id (sensors w) r) r\<rparr>;
          ss = bindSensor r (sensors w)
      in w\<lparr>sensors := ss,
            gateway := publish ''sensor/registered''
                         [(''sensorId'', Str (sensor_id (sensors w) r)),
                          (''name'', Str (sensor_name (sensors w) r))] now g1\<rparr>)"

text \<open>
  The registrations and the subscription of \<^verbatim>\<open>initializeApp\<close>, in the order of
  \<^verbatim>\<open>Object.values\<close>; the console logger is callback 0.
\<close>

definition initializeApp :: "nat \<Rightarrow> World \<Rightarrow> World" where
  "initializeApp now w =
     (let w1 = foldl (\<lambda>w r. registerDevice r now w) w
                 [Ref_light1, Ref_light2, Ref_light3, Ref_ac, Ref_waterHeater];
          w2 = foldl (\<lambda>w r. registerSensor r now w) w1
                 [Ref_temperature, Ref_motion, Ref_humidity, Ref_power, Ref_distance, Ref_light]
      in w2\<lparr>gateway := subscribe ''*'' 0 (gateway w2)\<rparr>)"

text \<open>A method call on one of the global objects, publishing through the global gateway.\<close>

definition on_ac ::
  "(AirConditioner \<Rightarrow> (device_ref, sensor_ref) IoTGateway
      \<Rightarrow> AirConditioner \<times> (device_ref, sensor_ref) IoTGateway) \<Rightarrow> World \<Rightarrow> World" where
  "on_ac f w =
     (case f (ac (devices w)) (gateway w) of
        (a, g) \<Rightarrow> w\<lparr>devices := (devices w)\<lparr>ac := a\<rparr>, gateway := g\<rparr>)"

definition on_light1 ::
  "(Light \<Rightarrow> (device_ref, sensor_ref) IoTGateway
      \<Rightarrow> Light \<times> (device_ref, sensor_ref) IoTGateway) \<Rightarrow> World \<Rightarrow> World" where
  "on_light1 f w =
     (case f (light1 (devices w)) (gateway w) of
        (a, g) \<Rightarrow> w\<lparr>devices := (devices w)\<lparr>light1 := a\<rparr>, gateway := g\<rparr>)"

definition on_light2 ::
  "(Light \<Rightarrow> (device_ref, sensor_ref) IoTGateway
      \<Rightarrow> Light \<times> (device_ref, sensor_ref) IoTGateway) \<Rightarrow> World \<Rightarrow> World" where
  "on_light2 f w =
     (case f (light2 (devices w)) (gateway w) of
        (a, g) \<Rightarrow> w\<lparr>devices := (devices w)\<lparr>light2 := a\<rparr>, gateway := g\<rparr>)"

definition on_light3 ::
  "(Light \<Rightarrow> (device_ref, sensor_ref) IoTGateway
      \<Rightarrow> Light \<times> (device_ref, sensor_ref) IoTGateway) \<Rightarrow> World \<Rightarrow> World" where
  "on_light3 f w =
     (case f (light3 (devices w)) (gateway w) of
        (a, g) \<Rightarrow> w\<lparr>devices := (devices w)\<lparr>light3 := a\<rparr>, gateway := g\<rparr>)"

definition on_waterHeater ::
  "(WaterHeater \<Rightarrow> (device_ref, sensor_ref) IoTGateway
      \<Rightarrow> WaterHeater \<times> (device_ref, sensor_ref) IoTGateway) \<Rightarrow> World \<Rightarrow> World" where
  "on_waterHeater f w =
     (case f (waterHeater (devices w)) (gateway w) of
        (a, g) \<Rightarrow> w\<lparr>devices := (devices w)\<lparr>waterHeater := a\<rparr>, gateway := g\<rparr>)"

section \<open>Automation rules and engine (automation.js)\<close>

text \<open>
  Counters that the code only resets and increments (\<^verbatim>\<open>triggerCount\<close>,
  \<^verbatim>\<open>noMotionDuration\<close>, \<^verbatim>\<open>thresholdMinutes\<close>) are natural numbers. The two
  no-motion rules declare the same fields and share one record.
  The global \<^verbatim>\<open>gateway\<close> is always an object, so \<^verbatim>\<open>if (gateway)\<close> in the
  \<^verbatim>\<open>execute\<close> methods always publishes.
\<close>

record AutomationRule =
  r_id :: string
  r_name :: string
  description :: string
  enabled :: bool
  lastTriggered :: "nat option"
  triggerCount :: nat

record HVACCoolingRule = AutomationRule +
  temperatureThreshold :: real

record NoMotionRule = AutomationRule +
  noMotionDuration :: nat
  thresholdMinutes :: nat

type_synonym HVACOffRule = NoMotionRule

type_synonym LightingOffRule = NoMotionRule

record LightingOnRule = AutomationRule +
  lightThreshold :: real

record HumidityRule = AutomationRule +
  highHumidityThreshold :: real

text \<open>
  \<^verbatim>\<open>AutomationRule.run\<close>, with the overrides of \<^verbatim>\<open>evaluate\<close> and \<^verbatim>\<open>execute\<close> that
  \<^verbatim>\<open>this\<close> resolves to. \<^verbatim>\<open>evaluate\<close> may update the rule's own counters;
  \<^verbatim>\<open>execute\<close> may update the rule and the global objects.
\<close>

definition run ::
  "('a AutomationRule_scheme \<Rightarrow> World \<Rightarrow> bool \<times> 'a AutomationRule_scheme)
    \<Rightarrow> (nat \<Rightarrow> 'a AutomationRule_scheme \<Rightarrow> World \<Rightarrow> 'a AutomationRule_scheme \<times> World)
    \<Rightarrow> nat \<Rightarrow> 'a AutomationRule_scheme \<Rightarrow> World
    \<Rightarrow> bool \<times> 'a AutomationRule_scheme \<times> World" where
  "run evaluate execute now r w =
     (if \<not> enabled r then (False, r, w)
      else (case evaluate r w of
              (c, r1) \<Rightarrow>
                if c
                then (case execute now r1 w of
                        (r2, w2) \<Rightarrow>
                          (True,
                           r2\<lparr>lastTriggered := Some now, triggerCount := triggerCount r2 + 1\<rparr>,
                           w2))
                else (False, r1, w)))"

definition triggered ::
  "string \<Rightarrow> string \<Rightarrow> frag list \<Rightarrow> nat \<Rightarrow> World \<Rightarrow> World" where
  "triggered rule action reason now w =
     w\<lparr>gateway := publish ''automation/triggered''
                     [(''rule'', Str rule), (''action'', Str action), (''reason'', Tpl reason)]
                     now (gateway w)\<rparr>"

subsection \<open>HVAC cooling\<close>

definition HVACCoolingRule_new :: HVACCoolingRule where
  "HVACCoolingRule_new =
     \<lparr>r_id = ''hvac-cooling'', r_name = ''HVAC Cooling'',
      description = ''Turn on AC when temperature > 26C and motion is detected'',
      enabled = True, lastTriggered = None, triggerCount = 0,
      temperatureThreshold = 26\<rparr>"

definition HVACCoolingRule_evaluate :: "HVACCoolingRule \<Rightarrow> World \<Rightarrow> bool \<times> HVACCoolingRule" where
  "HVACCoolingRule_evaluate r w =
     (let temp = s_value (temperature (sensors w));
          motionV = s_value (motion (sensors w));
          acIsOff = \<not> isOn (ac (devices w))
      in (js_gt temp (Num (temperatureThreshold r)) \<and> truthy motionV \<and> acIsOff, r))"

definition HVACCoolingRule_execute ::
  "nat \<Rightarrow> HVACCoolingRule \<Rightarrow> World \<Rightarrow> HVACCoolingRule \<times> World" where
  "HVACCoolingRule_execute now r w =
     (let w1 = on_ac (setMode ''cool'' now) w;
          w2 = on_ac (turnOn AirConditioner_getCurrentPowerConsumption now) w1
      in (r, triggered (r_id r) ''AC turned on (cooling mode)''
               [Lit ''Temperature: '', ToFixed (s_value (temperature (sensors w2))) 1,
                Lit ''C, Motion: detected''] now w2))"

subsection \<open>HVAC auto-off\<close>

definition HVACOffRule_new :: HVACOffRule where
  "HVACOffRule_new =
     \<lparr>r_id = ''hvac-off'', r_name = ''HVAC Auto-Off'',
      description = ''Turn off AC after 5 minutes of no motion'',
      enabled = True, lastTriggered = None, triggerCount = 0,
      noMotionDuration = 0, thresholdMinutes = 5\<rparr>"

definition HVACOffRule_evaluate :: "HVACOffRule \<Rightarrow> World \<Rightarrow> bool \<times> HVACOffRule" where
  "HVACOffRule_evaluate r w =
     (let motionV = s_value (motion (sensors w));
          acIsOn = isOn (ac (devices w))
      in if \<not> truthy motionV \<and> acIsOn
         then (let r' = r\<lparr>noMotionDuration := noMotionDuration r + 2\<rparr>
               in (noMotionDuration r' \<ge> thresholdMinutes r' * 60, r'))
         else (False, r\<lparr>noMotionDuration := 0\<rparr>))"

definition HVACOffRule_execute :: "nat \<Rightarrow> HVACOffRule \<Rightarrow> World \<Rightarrow> HVACOffRule \<times> World" where
  "HVACOffRule_execute now r w =
     (let w1 = on_ac (turnOff AirConditioner_getCurrentPowerConsumption now) w;
          r' = r\<lparr>noMotionDuration := 0\<rparr>
      in (r', triggered (r_id r') ''AC turned off''
                [Lit ''No motion for '', Interp (thresholdMinutes r'), Lit '' minutes'']
                now w1))"

subsection \<open>Lights on\<close>

definition LightingOnRule_new :: LightingOnRule where
  "LightingOnRule_new =
     \<lparr>r_id = ''lighting-on'', r_name = ''Auto Lights On'',
      description = ''Turn on lights when ambient light < 300 lux and motion is detected'',
      enabled = True, lastTriggered = None, triggerCount = 0,
      lightThreshold = 300\<rparr>"

definition LightingOnRule_evaluate :: "LightingOnRule \<Rightarrow> World \<Rightarrow> bool \<times> LightingOnRule" where
  "LightingOnRule_evaluate r w =
     (let ambientLight = s_value (light (sensors w));
          motionV = s_value (motion (sensors w));
          allLightsOff = (\<not> isOn (light1 (devices w)) \<and> \<not> isOn (light2 (devices w))
                          \<and> \<not> isOn (light3 (devices w)))
      in (js_lt ambientLight (Num (lightThreshold r)) \<and> truthy motionV \<and> allLightsOff, r))"

definition LightingOnRule_execute ::
  "nat \<Rightarrow> LightingOnRule \<Rightarrow> World \<Rightarrow> LightingOnRule \<times> World" where
  "LightingOnRule_execute now r w =
     (let w1 = on_light1 (turnOn Light_getCurrentPowerConsumption now) w;
          w2 = on_light2 (turnOn Light_getCurrentPowerConsumption now) w1
      in (r, triggered (r_id r) ''Lights turned on''
               [Lit ''Ambient light: '', ToFixed (s_value (light (sensors w2))) 0,
                Lit '' lux, Motion: detected''] now w2))"

subsection \<open>Lights off\<close>

definition LightingOffRule_new :: LightingOffRule where
  "LightingOffRule_new =
     \<lparr>r_id = ''lighting-off'', r_name = ''Auto Lights Off'',
      description = ''Turn off lights after 2 minutes of no motion'',
      enabled = True, lastTriggered = None, triggerCount = 0,
      noMotionDuration = 0, thresholdMinutes = 2\<rparr>"

definition LightingOffRule_evaluate :: "LightingOffRule \<Rightarrow> World \<Rightarrow> bool \<times> LightingOffRule" where
  "LightingOffRule_evaluate r w =
     (let motionV = s_value (motion (sensors w));
          anyLightOn = (isOn (light1 (devices w)) \<or> isOn (light2 (devices w))
                        \<or> isOn (light3 (devices w)))
      in if \<not> truthy motionV \<and> anyLightOn
         then (let r' = r\<lparr>noMotionDuration := noMotionDuration r + 2\<rparr>
               in (noMotionDuration r' \<ge> thresholdMinutes r' * 60, r'))
         else (False, r\<lparr>noMotionDuration := 0\<rparr>))"

definition LightingOffRule_execute ::
  "nat \<Rightarrow> LightingOffRule \<Rightarrow> World \<Rightarrow> LightingOffRule \<times> World" where
  "LightingOffRule_execute now r w =
     (let w1 = on_light1 (turnOff Light_getCurrentPowerConsumption now) w;
          w2 = on_light2 (turnOff Light_getCurrentPowerConsumption now) w1;
          w3 = on_light3 (turnOff Light_getCurrentPowerConsumption now) w2;
          r' = r\<lparr>noMotionDuration := 0\<rparr>
      in (r', triggered (r_id r') ''Lights turned off''
                [Lit ''No motion for '', Interp (thresholdMinutes r'), Lit '' minutes'']
                now w3))"

subsection \<open>Humidity\<close>

definition HumidityRule_new :: HumidityRule where
  "HumidityRule_new =
     \<lparr>r_id = ''humidity-control'', r_name = ''Humidity Control'',
      description = ''Adjust AC mode based on humidity levels'',
      enabled = True, lastTriggered = None, triggerCount = 0,
      highHumidityThreshold = 70\<rparr>"

definition HumidityRule_evaluate :: "HumidityRule \<Rightarrow> World \<Rightarrow> bool \<times> HumidityRule" where
  "HumidityRule_evaluate r w =
     (let hum = s_value (humidity (sensors w));
          acIsOn = isOn (ac (devices w))
      in (js_gt hum (Num (highHumidityThreshold r)) \<and> acIsOn, r))"

definition HumidityRule_execute :: "nat \<Rightarrow> HumidityRule \<Rightarrow> World \<Rightarrow> HumidityRule \<times> World" where
  "HumidityRule_execute now r w =
     (let w1 = on_ac (setMode ''cool'' now) w;
          w2 = on_ac (setFanSpeed ''high'') w1
      in (r, triggered (r_id r) ''AC set to high fan for dehumidification''
               [Lit ''Humidity: '', ToFixed (s_value (humidity (sensors w2))) 1, Lit ''%'']
               now w2))"

subsection \<open>Rule objects of any class\<close>

datatype rule_obj =
  HVACCoolingRuleObj HVACCoolingRule
| HVACOffRuleObj HVACOffRule
| LightingOnRuleObj LightingOnRule
| LightingOffRuleObj LightingOffRule
| HumidityRuleObj HumidityRule

fun rule_id :: "rule_obj \<Rightarrow> string" where
  "rule_id (HVACCoolingRuleObj r) = r_id r"
| "rule_id (HVACOffRuleObj r) = r_id r"
| "rule_id (LightingOnRuleObj r) = r_id r"
| "rule_id (LightingOffRuleObj r) = r_id r"
| "rule_id (HumidityRuleObj r) = r_id r"

fun rule_name :: "rule_obj \<Rightarrow> string" where
  "rule_name (HVACCoolingRuleObj r) = r_name r"
| "rule_name (HVACOffRuleObj r) = r_name r"
| "rule_name (LightingOnRuleObj r) = r_name r"
| "rule_name (LightingOffRuleObj r) = r_name r"
| "rule_name (HumidityRuleObj r) = r_name r"

fun rule_enabled :: "rule_obj \<Rightarrow> bool" where
  "rule_enabled (HVACCoolingRuleObj r) = enabled r"
| "rule_enabled (HVACOffRuleObj r) = enabled r"
| "rule_enabled (LightingOnRuleObj r) = enabled r"
| "rule_enabled (LightingOffRuleObj r) = enabled r"
| "rule_enabled (HumidityRuleObj r) = enabled r"

fun set_enabled :: "bool \<Rightarrow> rule_obj \<Rightarrow> rule_obj" where
  "set_enabled b (HVACCoolingRuleObj r) = HVACCoolingRuleObj (r\<lparr>enabled := b\<rparr>)"
| "set_enabled b (HVACOffRuleObj r) = HVACOffRuleObj (r\<lparr>enabled := b\<rparr>)"
| "set_enabled b (LightingOnRuleObj r) = LightingOnRuleObj (r\<lparr>enabled := b\<rparr>)"
| "set_enabled b (LightingOffRuleObj r) = LightingOffRuleObj (r\<lparr>enabled := b\<rparr>)"
| "set_enabled b (HumidityRuleObj r) = HumidityRuleObj (r\<lparr>enabled := b\<rparr>)"

text \<open>Dynamic dispatch of \<^verbatim>\<open>rule.run()\<close>.\<close>

fun rule_run :: "nat \<Rightarrow> rule_obj \<Rightarrow> World \<Rightarrow> bool \<times> rule_obj \<times> World" where
  "rule_run now (HVACCoolingRuleObj r) w =
     (case run HVACCoolingRule_evaluate HVACCoolingRule_execute now r w of
        (t, r', w') \<Rightarrow> (t, HVACCoolingRuleObj r', w'))"
| "rule_run now (HVACOffRuleObj r) w =
     (case run HVACOffRule_evaluate HVACOffRule_execute now r w of
        (t, r', w') \<Rightarrow> (t, HVACOffRuleObj r', w'))"
| "rule_run now (LightingOnRuleObj r) w =
     (case run LightingOnRule_evaluate LightingOnRule_execute now r w of
        (t, r', w') \<Rightarrow> (t, LightingOnRuleObj r', w'))"
| "rule_run now (LightingOffRuleObj r) w =
     (case run LightingOffRule_evaluate LightingOffRule_execute now r w of
        (t, r', w') \<Rightarrow> (t, LightingOffRuleObj r', w'))"
| "rule_run now (HumidityRuleObj r) w =
     (case run HumidityRule_evaluate HumidityRule_execute now r w of
        (t, r', w') \<Rightarrow> (t, HumidityRuleObj r', w'))"

subsection \<open>AutomationEngine\<close>

type_synonym activity = "string \<times> string \<times> nat"

record AutomationEngine =
  rules :: "(string \<times> rule_obj) list"
  activityLog :: "activity list"
  isRunning :: bool

definition AutomationEngine_new :: AutomationEngine where
  "AutomationEngine_new = \<lparr>rules = [], activityLog = [], isRunning = False\<rparr>"

definition addRule :: "rule_obj \<Rightarrow> AutomationEngine \<Rightarrow> AutomationEngine" where
  "addRule rule e = e\<lparr>rules := Map_set (rules e) (rule_id rule) rule\<rparr>"

definition removeRule :: "string \<Rightarrow> AutomationEngine \<Rightarrow> AutomationEngine" where
  "removeRule i e = e\<lparr>rules := Map_delete (rules e) i\<rparr>"

definition enableRule :: "string \<Rightarrow> AutomationEngine \<Rightarrow> AutomationEngine" where
  "enableRule i e =
     (case Map_get (rules e) i of
        Some rule \<Rightarrow> e\<lparr>rules := Map_set (rules e) i (set_enabled True rule)\<rparr>
      | None \<Rightarrow> e)"

definition disableRule :: "string \<Rightarrow> AutomationEngine \<Rightarrow> AutomationEngine" where
  "disableRule i e =
     (case Map_get (rules e) i of
        Some rule \<Rightarrow> e\<lparr>rules := Map_set (rules e) i (set_enabled False rule)\<rparr>
      | None \<Rightarrow> e)"

text \<open>\<^verbatim>\<open>toggleRule\<close> also returns the new flag; only the state change is kept here.\<close>

definition toggleRule :: "string \<Rightarrow> AutomationEngine \<Rightarrow> AutomationEngine" where
  "toggleRule i e =
     (case Map_get (rules e) i of
        Some rule \<Rightarrow> e\<lparr>rules := Map_set (rules e) i (set_enabled (\<not> rule_enabled rule) rule)\<rparr>
      | None \<Rightarrow> e)"

text \<open>
  \<^verbatim>\<open>this.rules.forEach\<close>: the rules run in insertion order, each on the state the
  previous one left; a triggered rule is logged and the log trimmed at once.
\<close>

fun evaluateRules ::
  "nat \<Rightarrow> (string \<times> rule_obj) list \<Rightarrow> activity list \<Rightarrow> World
    \<Rightarrow> (string \<times> rule_obj) list \<times> activity list \<times> World" where
  "evaluateRules now [] lg w = ([], lg, w)"
| "evaluateRules now ((i, rule) # rs) lg w =
     (case rule_run now rule w of
        (t, rule', w') \<Rightarrow>
          (let lg1 = (if t
                      then (let l = lg @ [(i, rule_name rule', now)]
                            in if length l > 50 then shift l else l)
                      else lg)
           in (case evaluateRules now rs lg1 w' of
                 (rs', lg2, w'') \<Rightarrow> ((i, rule') # rs', lg2, w''))))"

definition AutomationEngine_evaluate ::
  "nat \<Rightarrow> AutomationEngine \<Rightarrow> World \<Rightarrow> AutomationEngine \<times> World" where
  "AutomationEngine_evaluate now e w =
     (case evaluateRules now (rules e) (activityLog e) w of
        (rs, lg, w') \<Rightarrow> (e\<lparr>rules := rs, activityLog := lg\<rparr>, w'))"

definition automationEngine_new :: AutomationEngine where
  "automationEngine_new =
     addRule (HumidityRuleObj HumidityRule_new)
       (addRule (LightingOffRuleObj LightingOffRule_new)
         (addRule (LightingOnRuleObj LightingOnRule_new)
           (addRule (HVACOffRuleObj HVACOffRule_new)
             (addRule (HVACCoolingRuleObj HVACCoolingRule_new) AutomationEngine_new))))"

section \<open>Runs of the program\<close>

subsection \<open>Calls on the global objects\<close>

text \<open>Dynamic dispatch of \<^verbatim>\<open>sensor.setValue(x)\<close> on the six sensor objects.\<close>

fun setValue :: "sensor_ref \<Rightarrow> jsval \<Rightarrow> nat \<Rightarrow> World \<Rightarrow> World" where
  "setValue Ref_temperature x now w =
     (case Sensor_setValue x now (temperature (sensors w)) (gateway w) of
        (s, g) \<Rightarrow> w\<lparr>sensors := (sensors w)\<lparr>temperature := s\<rparr>, gateway := g\<rparr>)"
| "setValue Ref_motion x now w =
     (case MotionSensor_setValue x now (motion (sensors w)) (gateway w) of
        (s, g) \<Rightarrow> w\<lparr>sensors := (sensors w)\<lparr>motion := s\<rparr>, gateway := g\<rparr>)"
| "setValue Ref_humidity x now w =
     (case Sensor_setValue x now (humidity (sensors w)) (gateway w) of
        (s, g) \<Rightarrow> w\<lparr>sensors := (sensors w)\<lparr>humidity := s\<rparr>, gateway := g\<rparr>)"
| "setValue Ref_power x now w =
     (case Sensor_setValue x now (powerSensor (sensors w)) (gateway w) of
        (s, g) \<Rightarrow> w\<lparr>sensors := (sensors w)\<lparr>powerSensor := s\<rparr>, gateway := g\<rparr>)"
| "setValue Ref_distance x now w =
     (case Sensor_setValue x now (distance (sensors w)) (gateway w) of
        (s, g) \<Rightarrow> w\<lparr>sensors := (sensors w)\<lparr>distance := s\<rparr>, gateway := g\<rparr>)"
| "setValue Ref_light x now w =
     (case Sensor_setValue x now (light (sensors w)) (gateway w) of
        (s, g) \<Rightarrow> w\<lparr>sensors := (sensors w)\<lparr>light := s\<rparr>, gateway := g\<rparr>)"

text \<open>\<^verbatim>\<open>PowerSensor.simulate\<close>, the one \<^verbatim>\<open>simulate()\<close> that draws no random number.\<close>

definition PowerSensor_simulate :: "nat \<Rightarrow> World \<Rightarrow> World" where
  "PowerSensor_simulate now w =
     setValue Ref_power (JNum (getTotalPowerConsumption (deref (devices w)) (gateway w))) now w"

text \<open>\<^verbatim>\<open>device.turnOn()\<close>, \<^verbatim>\<open>device.turnOff()\<close> and \<^verbatim>\<open>device.toggle()\<close> on the five devices.\<close>

fun deviceTurnOn :: "device_ref \<Rightarrow> nat \<Rightarrow> World \<Rightarrow> World" where
  "deviceTurnOn Ref_light1 now w = on_light1 (turnOn Light_getCurrentPowerConsumption now) w"
| "deviceTurnOn Ref_light2 now w = on_light2 (turnOn Light_getCurrentPowerConsumption now) w"
| "deviceTurnOn Ref_light3 now w = on_light3 (turnOn Light_getCurrentPowerConsumption now) w"
| "deviceTurnOn Ref_ac now w = on_ac (turnOn AirConditioner_getCurrentPowerConsumption now) w"
| "deviceTurnOn Ref_waterHeater now w =
     on_waterHeater (turnOn WaterHeater_getCurrentPowerConsumption now) w"

fun deviceTurnOff :: "device_ref \<Rightarrow> nat \<Rightarrow> World \<Rightarrow> World" where
  "deviceTurnOff Ref_light1 now w = on_light1 (turnOff Light_getCurrentPowerConsumption now) w"
| "deviceTurnOff Ref_light2 now w = on_light2 (turnOff Light_getCurrentPowerConsumption now) w"
| "deviceTurnOff Ref_light3 now w = on_light3 (turnOff Light_getCurrentPowerConsumption now) w"
| "deviceTurnOff Ref_ac now w = on_ac (turnOff AirConditioner_getCurrentPowerConsumption now) w"
| "deviceTurnOff Ref_waterHeater now w =
     on_waterHeater (turnOff WaterHeater_getCurrentPowerConsumption now) w"

fun deviceToggle :: "device_ref \<Rightarrow> nat \<Rightarrow> World \<Rightarrow> World" where
  "deviceToggle Ref_light1 now w = on_light1 (toggle Light_getCurrentPowerConsumption now) w"
| "deviceToggle Ref_light2 now w = on_light2 (toggle Light_getCurrentPowerConsumption now) w"
| "deviceToggle Ref_light3 now w = on_light3 (toggle Light_getCurrentPowerConsumption now) w"
| "deviceToggle Ref_ac now w = on_ac (toggle AirConditioner_getCurrentPowerConsumption now) w"
| "deviceToggle Ref_waterHeater now w =
     on_waterHeater (toggle WaterHeater_getCurrentPowerConsumption now) w"

text \<open>
  \<^verbatim>\<open>device.setBrightness(level)\<close> where the device has the method: only lights do, and
  the one caller tests \<^verbatim>\<open>device.setBrightness\<close> first, so on the other devices nothing
  happens. The caller's lookup of the device by id and its \<^verbatim>\<open>parseInt\<close> of the slider
  text are not modelled: the call takes the device and the number.
\<close>

fun deviceSetBrightness :: "device_ref \<Rightarrow> jsnum \<Rightarrow> nat \<Rightarrow> World \<Rightarrow> World" where
  "deviceSetBrightness Ref_light1 level now w = on_light1 (setBrightness level now) w"
| "deviceSetBrightness Ref_light2 level now w = on_light2 (setBrightness level now) w"
| "deviceSetBrightness Ref_light3 level now w = on_light3 (setBrightness level now) w"
| "deviceSetBrightness Ref_ac level now w = w"
| "deviceSetBrightness Ref_waterHeater level now w = w"

subsection \<open>Any sequence of calls\<close>

text \<open>
  The calls the driver and the interface glue make on the core. A random
  \<^verbatim>\<open>simulate()\<close> is a \<open>SetValue\<close> with the number it drew.
\<close>

datatype call =
  Publish string message nat
| Subscribe string nat
| RegisterDevice device_ref nat
| RegisterSensor sensor_ref nat
| SetValue sensor_ref jsval nat
| SimulatePower nat
| TurnOn device_ref nat
| TurnOff device_ref nat
| Toggle device_ref nat
| SetBrightness device_ref jsnum nat
| SetMode string nat
| SetTargetTemperature jsnum nat
| SetFanSpeed string
| SetWaterTarget jsnum nat
| UpdateWaterHeater
| Evaluate nat
| AddRule rule_obj
| RemoveRule string
| EnableRule string
| DisableRule string
| ToggleRule string

fun step :: "call \<Rightarrow> AutomationEngine \<times> World \<Rightarrow> AutomationEngine \<times> World" where
  "step (Publish topic message now) (e, w) = (e, w\<lparr>gateway := publish topic message now (gateway w)\<rparr>)"
| "step (Subscribe topic callback) (e, w) = (e, w\<lparr>gateway := subscribe topic callback (gateway w)\<rparr>)"
| "step (RegisterDevice r now) (e, w) = (e, registerDevice r now w)"
| "step (RegisterSensor r now) (e, w) = (e, registerSensor r now w)"
| "step (SetValue r x now) (e, w) = (e, setValue r x now w)"
| "step (SimulatePower now) (e, w) = (e, PowerSensor_simulate now w)"
| "step (TurnOn r now) (e, w) = (e, deviceTurnOn r now w)"
| "step (TurnOff r now) (e, w) = (e, deviceTurnOff r now w)"
| "step (Toggle r now) (e, w) = (e, deviceToggle r now w)"
| "step (SetBrightness r level now) (e, w) = (e, deviceSetBrightness r level now w)"
| "step (SetMode m now) (e, w) = (e, on_ac (setMode m now) w)"
| "step (SetTargetTemperature t now) (e, w) = (e, on_ac (setTargetTemperature t now) w)"
| "step (SetFanSpeed sp) (e, w) = (e, on_ac (setFanSpeed sp) w)"
| "step (SetWaterTarget t now) (e, w) = (e, on_waterHeater (WaterHeater_setTargetTemperature t now) w)"
| "step UpdateWaterHeater (e, w) = (e, w\<lparr>devices := (devices w)\<lparr>waterHeater := update (waterHeater (devices w))\<rparr>\<rparr>)"
| "step (Evaluate now) (e, w) = AutomationEngine_evaluate now e w"
| "step (AddRule rule) (e, w) = (addRule rule e, w)"
| "step (RemoveRule i) (e, w) = (removeRule i e, w)"
| "step (EnableRule i) (e, w) = (enableRule i e, w)"
| "step (DisableRule i) (e, w) = (disableRule i e, w)"
| "step (ToggleRule i) (e, w) = (toggleRule i e, w)"

fun steps :: "call list \<Rightarrow> AutomationEngine \<times> World \<Rightarrow> AutomationEngine \<times> World" where
  "steps [] st = st"
| "steps (c # cs) st = steps cs (step c st)"

subsection \<open>Sequential writes to one sensor\<close>

fun setValues ::
  "(jsval \<times> nat) list \<Rightarrow> jsnum Sensor \<Rightarrow> ('d, 's) IoTGateway \<Rightarrow> jsnum Sensor \<times> ('d, 's) IoTGateway" where
  "setValues [] s g = (s, g)"
| "setValues ((x, now) # ws) s g =
     (case Sensor_setValue x now s g of (s', g') \<Rightarrow> setValues ws s' g')"

text \<open>
  The history entry a write leaves: the reading as stored (the input clamped, or NaN) and
  the time of the write.
\<close>

definition reading :: "jsnum Sensor \<Rightarrow> jsval \<times> nat \<Rightarrow> jsnum \<times> nat" where
  "reading s xt =
     (Math_max (Num (minValue s)) (Math_min (Num (maxValue s)) (toNumber (fst xt))), snd xt)"

subsection \<open>Ticks of the cooling-off rule\<close>

text \<open>
  One tick: the motion sensor takes its reading for the tick, then the rule runs once.
  The result lists, tick by tick, whether the rule triggered.
\<close>

fun coolingOffTicks ::
  "(jsval \<times> nat) list \<Rightarrow> HVACOffRule \<Rightarrow> World \<Rightarrow> bool list \<times> HVACOffRule \<times> World" where
  "coolingOffTicks [] r w = ([], r, w)"
| "coolingOffTicks ((m, now) # ms) r w =
     (case run HVACOffRule_evaluate HVACOffRule_execute now r (setValue Ref_motion m now w) of
        (t, r', w') \<Rightarrow>
          (case coolingOffTicks ms r' w' of (ts, r'', w'') \<Rightarrow> (t # ts, r'', w'')))"

subsection \<open>Calls on an air conditioner\<close>

datatype ac_call = CallSetMode string nat | CallSetFanSpeed string

fun ac_apply ::
  "ac_call \<Rightarrow> AirConditioner \<times> ('d, 's) IoTGateway \<Rightarrow> AirConditioner \<times> ('d, 's) IoTGateway" where
  "ac_apply (CallSetMode m now) (d, g) = setMode m now d g"
| "ac_apply (CallSetFanSpeed sp) (d, g) = setFanSpeed sp d g"

fun ac_calls ::
  "ac_call list \<Rightarrow> AirConditioner \<times> ('d, 's) IoTGateway \<Rightarrow> AirConditioner \<times> ('d, 's) IoTGateway" where
  "ac_calls [] st = st"
| "ac_calls (c # cs) st = ac_calls cs (ac_apply c st)"

subsection \<open>A sample state\<close>

text \<open>
  The program after \<^verbatim>\<open>initializeApp\<close>, with the first light dimmed to 50% and switched
  on, the air conditioner switched on (it starts in cool mode) and the water heater
  switched on (it does not heat before its first \<^verbatim>\<open>update()\<close>).
\<close>

definition demoWorld :: World where
  "demoWorld =
     snd (steps [SetBrightness Ref_light1 (Num 50) 1, TurnOn Ref_light1 2, TurnOn Ref_ac 3,
                 TurnOn Ref_waterHeater 4]
            (automationEngine_new, initializeApp 0 World_new))"

subsection \<open>Gateway states reached by publishing\<close>

text \<open>\<open>published g g'\<close>: the gateway went from \<open>g\<close> to \<open>g'\<close> by calls of \<^verbatim>\<open>publish\<close> alone.\<close>

inductive published :: "('d, 's) IoTGateway \<Rightarrow> ('d, 's) IoTGateway \<Rightarrow> bool" where
  published_refl: "published g g"
| published_step: "published g g' \<Longrightarrow> published g (publish topic message now g')"

subsection \<open>Sample objects\<close>

text \<open>A light, an air conditioner and a water heater bound to the gateway, and the gateway as constructed.\<close>

definition boundLight :: Light where
  "boundLight = (Light_new ''light1'' ''Living Room Light'')\<lparr>d_gateway := True\<rparr>"

definition boundAC :: AirConditioner where
  "boundAC = (AirConditioner_new ''ac'' ''Air Conditioner'')\<lparr>d_gateway := True\<rparr>"

definition boundHeater :: WaterHeater where
  "boundHeater = (WaterHeater_new ''waterHeater'' ''Water Heater'')\<lparr>d_gateway := True\<rparr>"

definition emptyGateway :: "(device_ref, sensor_ref) IoTGateway" where
  "emptyGateway = IoTGateway_new"

subsection \<open>Sample states for the rules\<close>

text \<open>
  After \<^verbatim>\<open>initializeApp\<close>: a hot, occupied room; a dark, occupied room; and a room
  with the air conditioner running.
\<close>

definition hotWorld :: World where
  "hotWorld =
     snd (steps [SetValue Ref_temperature (JNum (Num 27)) 1, SetValue Ref_motion (JBool True) 2]
            (automationEngine_new, initializeApp 0 World_new))"

definition darkWorld :: World where
  "darkWorld =
     snd (steps [SetValue Ref_light (JNum (Num 100)) 1, SetValue Ref_motion (JBool True) 2]
            (automationEngine_new, initializeApp 0 World_new))"

definition coolingWorld :: World where
  "coolingWorld = snd (steps [TurnOn Ref_ac 1] (automationEngine_new, initializeApp 0 World_new))"

subsection \<open>Reference notions for the bounded logs\<close>

text \<open>
  \<open>lastN n xs\<close> is the list of the last \<open>n\<close> entries of \<open>xs\<close> (all of it when it is
  shorter). \<open>firing now rs w\<close> lists, in order, the activity entries of the rules among
  \<open>rs\<close> that trigger when they run one after the other from state \<open>w\<close>.
\<close>

definition lastN :: "nat \<Rightarrow> 'a list \<Rightarrow> 'a list" where
  "lastN n xs = drop (length xs - n) xs"

fun firing :: "nat \<Rightarrow> (string \<times> rule_obj) list \<Rightarrow> World \<Rightarrow> activity list" where
  "firing now [] w = []"
| "firing now ((i, rule) # rs) w =
     (case rule_run now rule w of
        (t, rule', w') \<Rightarrow> (if t then [(i, rule_name rule', now)] else []) @ firing now rs w')"

section \<open>Properties\<close>

subsection \<open>Sensor writes\<close>

lemma shift_tl: "shift xs = tl xs"
  by (cases xs) (simp_all add: shift_def)

lemma Sensor_setValue_value:
  "s_value (fst (Sensor_setValue x now s g))
     = Math_max (Num (minValue s)) (Math_min (Num (maxValue s)) (toNumber x))"
  by (simp add: Sensor_setValue_def Let_def)

lemma Sensor_setValue_bounds:
  "minValue (fst (Sensor_setValue x now s g)) = minValue s"
  "maxValue (fst (Sensor_setValue x now s g)) = maxValue s"
  by (simp_all add: Sensor_setValue_def Let_def)

text \<open>
  Every sensor built on the base \<^verbatim>\<open>setValue\<close> is constructed with a lower bound below
  its upper bound, and no method changes the bounds.
\<close>

lemma numeric_sensor_bounds:
  "minValue TemperatureSensor_new \<le> maxValue TemperatureSensor_new"
  "minValue HumiditySensor_new \<le> maxValue HumiditySensor_new"
  "minValue PowerSensor_new \<le> maxValue PowerSensor_new"
  "minValue DistanceSensor_new \<le> maxValue DistanceSensor_new"
  "minValue LightSensor_new \<le> maxValue LightSensor_new"
  by (simp_all add: TemperatureSensor_new_def HumiditySensor_new_def PowerSensor_new_def
      DistanceSensor_new_def LightSensor_new_def Sensor_new_def)

text \<open>
  Claim C1, as amended. For a sensor that uses the base \<^verbatim>\<open>setValue\<close> (temperature,
  humidity, power, distance, ambient light) and whose bounds are ordered, and for every
  input \<open>x\<close>: when \<open>x\<close> converts to a number \<open>v\<close> other than NaN (a boolean converts
  to 0 or 1), the reading stored by \<^verbatim>\<open>setValue(x)\<close> is \<open>v\<close> clamped to the bounds and
  lies within them; when \<open>x\<close> converts to NaN (NaN itself, \<^verbatim>\<open>undefined\<close>, a string
  that is no numeral) the stored reading is NaN; the bounds themselves are unchanged. The motion sensor overrides \<^verbatim>\<open>setValue\<close> and stores its argument as it
  is, without clamping.
\<close>

theorem setValue_clamps:
  fixes s :: "jsnum Sensor" and m :: "jsval Sensor"
  assumes "minValue s \<le> maxValue s"
  shows "(toNumber x = Num v \<longrightarrow>
            s_value (fst (Sensor_setValue x now s g)) = Num (max (minValue s) (min (maxValue s) v))
            \<and> js_le (Num (minValue s)) (s_value (fst (Sensor_setValue x now s g)))
            \<and> js_le (s_value (fst (Sensor_setValue x now s g))) (Num (maxValue s)))
       \<and> (toNumber x = NaN \<longrightarrow> s_value (fst (Sensor_setValue x now s g)) = NaN)
       \<and> minValue (fst (Sensor_setValue x now s g)) = minValue s
       \<and> maxValue (fst (Sensor_setValue x now s g)) = maxValue s
       \<and> s_value (fst (MotionSensor_setValue y now' m g')) = y"
  using assms
  by (simp add: Sensor_setValue_value Sensor_setValue_bounds MotionSensor_setValue_def Let_def)

theorem setValue_clamps_witness:
  "minValue TemperatureSensor_new \<le> maxValue TemperatureSensor_new
   \<and> toNumber (JNum (Num 50)) = Num 50
   \<and> s_value (fst (Sensor_setValue (JNum (Num 50)) 7 TemperatureSensor_new
        (IoTGateway_new :: (device_ref, sensor_ref) IoTGateway))) = Num 40
   \<and> js_le (s_value (fst (Sensor_setValue (JNum (Num 50)) 7 TemperatureSensor_new
        (IoTGateway_new :: (device_ref, sensor_ref) IoTGateway)))) (Num 40)
   \<and> s_value (fst (MotionSensor_setValue (JBool True) 7 MotionSensor_new
        (IoTGateway_new :: (device_ref, sensor_ref) IoTGateway))) = JBool True"
proof -
  have h: "minValue TemperatureSensor_new \<le> maxValue TemperatureSensor_new"
    by (simp add: TemperatureSensor_new_def Sensor_new_def)
  from setValue_clamps [OF h, where x = "JNum (Num 50)" and v = 50 and now = 7
      and g = "IoTGateway_new :: (device_ref, sensor_ref) IoTGateway"
      and y = "JBool True" and now' = 7 and m = MotionSensor_new
      and g' = "IoTGateway_new :: (device_ref, sensor_ref) IoTGateway"]
  show ?thesis using h by (simp add: TemperatureSensor_new_def Sensor_new_def)
qed

text \<open>
  Claim C1 as stated fails in two ways. On the motion sensor,
  \<^verbatim>\<open>sensors.motion.setValue(5)\<close> on the freshly constructed sensor (bounds 0 and 1)
  stores 5, above the upper bound. On a sensor that clamps,
  \<^verbatim>\<open>sensors.temperature.setValue(NaN)\<close> stores NaN, which is neither at least the lower
  bound nor at most the upper bound.
\<close>

theorem setValue_unclamped:
  "\<not> js_le (toNumber (s_value (fst (MotionSensor_setValue (JNum (Num 5)) 7 MotionSensor_new
          (IoTGateway_new :: (device_ref, sensor_ref) IoTGateway)))))
        (Num (maxValue MotionSensor_new))
   \<and> s_value (fst (Sensor_setValue (JNum NaN) 7 TemperatureSensor_new
          (IoTGateway_new :: (device_ref, sensor_ref) IoTGateway))) = NaN
   \<and> \<not> js_le (Num (minValue TemperatureSensor_new))
          (s_value (fst (Sensor_setValue (JNum NaN) 7 TemperatureSensor_new
             (IoTGateway_new :: (device_ref, sensor_ref) IoTGateway))))
   \<and> \<not> js_le (s_value (fst (Sensor_setValue (JNum NaN) 7 TemperatureSensor_new
             (IoTGateway_new :: (device_ref, sensor_ref) IoTGateway))))
          (Num (maxValue TemperatureSensor_new))"
  by (simp add: MotionSensor_setValue_def MotionSensor_new_def Sensor_new_def Let_def
      Sensor_setValue_value TemperatureSensor_new_def)

subsection \<open>Sensor history\<close>

lemma window_push:
  assumes "length h \<le> 60"
  shows "(if length (h @ [e]) > 60 then tl (h @ [e]) else h @ [e])
         = drop (length h + 1 - 60) (h @ [e])"
proof (cases "length h = 60")
  case True
  then have "length h + 1 - 60 = 1" by simp
  with True show ?thesis by (cases h) simp_all
next
  case False
  with assms have "length h + 1 - 60 = 0" by simp
  with False assms show ?thesis by simp
qed

lemma Sensor_setValue_history:
  "history (fst (Sensor_setValue x now s g))
   = (if length (history s @ [reading s (x, now)]) > 60
      then tl (history s @ [reading s (x, now)]) else history s @ [reading s (x, now)])"
  by (simp add: Sensor_setValue_def Let_def reading_def shift_tl)

lemma reading_setValue: "reading (fst (Sensor_setValue x now s g)) = reading s"
  by (rule ext) (simp add: reading_def Sensor_setValue_bounds)

lemma setValues_history:
  "length (history s) \<le> 60 \<Longrightarrow>
   history (fst (setValues ws s g))
   = drop (length (history s) + length ws - 60) (history s @ map (reading s) ws)"
proof (induction ws arbitrary: s g)
  case Nil
  then show ?case by simp
next
  case (Cons w ws)
  obtain x now where w: "w = (x, now)" by (cases w)
  obtain s' g' where sg: "Sensor_setValue x now s g = (s', g')" by (cases "Sensor_setValue x now s g")
  let ?h = "history s" and ?e = "reading s (x, now)"
  let ?k = "length ?h + 1 - 60"
  have s': "s' = fst (Sensor_setValue x now s g)" using sg by simp
  have h': "history s' = drop ?k (?h @ [?e])"
    unfolding s' Sensor_setValue_history using window_push [OF Cons.prems] by simp
  have len': "length (history s') \<le> 60" using Cons.prems unfolding h' by simp
  have rd: "reading s' = reading s" unfolding s' by (rule reading_setValue)
  have "history (fst (setValues (w # ws) s g)) = history (fst (setValues ws s' g'))"
    using w sg by simp
  also have "\<dots> = drop (length (history s') + length ws - 60) (history s' @ map (reading s) ws)"
    using Cons.IH [OF len'] rd by simp
  also have "\<dots> = drop (length ?h + length (w # ws) - 60) (?h @ map (reading s) (w # ws))"
  proof -
    have k: "?k \<le> length (?h @ [?e])" by simp
    have "history s' @ map (reading s) ws = drop ?k ((?h @ [?e]) @ map (reading s) ws)"
      unfolding h' using k by simp
    moreover have "length (history s') + length ws - 60 + ?k = length ?h + length (w # ws) - 60"
      unfolding h' using Cons.prems by (cases "length ?h = 60") auto
    ultimately show ?thesis using w by (simp add: add.commute)
  qed
  finally show ?case .
qed

lemma MotionSensor_setValue_history:
  "history (fst (MotionSensor_setValue y now m g)) = history m"
  by (simp add: MotionSensor_setValue_def Let_def)

text \<open>
  Claim C4, as amended. For a sensor that uses the base \<^verbatim>\<open>setValue\<close>, holding at most
  60 history entries: one write appends the entry (clamped reading, time of the write),
  after dropping the oldest entry when 60 were held; after any sequence of writes the
  history is the last 60 entries of the old history followed by the entries of the writes,
  so it never holds more than 60; and after 61 writes to an empty history it is the
  entries of writes 2 to 61: the newest is last, and the first, when the times of the
  writes differ, is no longer present. The motion sensor's own \<^verbatim>\<open>setValue\<close> leaves
  the history as it was.
\<close>

theorem history_window:
  fixes s :: "jsnum Sensor" and m :: "jsval Sensor"
  assumes "length (history s) \<le> 60"
  shows "history (fst (Sensor_setValue x now s g))
           = (if length (history s) = 60 then tl (history s) else history s) @ [reading s (x, now)]
       \<and> history (fst (setValues ws s g))
           = drop (length (history s) + length ws - 60) (history s @ map (reading s) ws)
       \<and> length (history (fst (setValues ws s g))) \<le> 60
       \<and> (history s = [] \<and> length ws = 61 \<longrightarrow>
            history (fst (setValues ws s g)) = tl (map (reading s) ws)
            \<and> last (history (fst (setValues ws s g))) = reading s (last ws)
            \<and> (distinct (map snd ws) \<longrightarrow>
                 reading s (hd ws) \<notin> set (history (fst (setValues ws s g)))))
       \<and> history (fst (MotionSensor_setValue y now' m g')) = history m"
proof -
  let ?H = "history (fst (setValues ws s g))"
  have one: "history (fst (Sensor_setValue x now s g))
           = (if length (history s) = 60 then tl (history s) else history s) @ [reading s (x, now)]"
    using assms unfolding Sensor_setValue_history by (cases "history s") auto
  have win: "?H = drop (length (history s) + length ws - 60) (history s @ map (reading s) ws)"
    by (rule setValues_history [OF assms])
  have len: "length ?H \<le> 60" unfolding win using assms by simp
  have full: "?H = tl (map (reading s) ws) \<and> last ?H = reading s (last ws)
       \<and> (distinct (map snd ws) \<longrightarrow> reading s (hd ws) \<notin> set ?H)"
    if e: "history s = []" and n: "length ws = 61"
  proof -
    obtain w ws' where ws: "ws = w # ws'" using n by (cases ws) auto
    have ne: "ws' \<noteq> []" using n ws by auto
    have H: "?H = map (reading s) ws'" unfolding win using e n ws by (simp add: drop_Suc)
    have l: "last ?H = reading s (last ws)" unfolding H using ws ne by (simp add: last_map)
    have d: "reading s (hd ws) \<notin> set ?H" if "distinct (map snd ws)"
    proof
      assume "reading s (hd ws) \<in> set ?H"
      then obtain v where v: "v \<in> set ws'" "reading s v = reading s w" unfolding H using ws by auto
      then have "snd v = snd w" by (simp add: reading_def)
      with v that ws show False by (auto simp: image_iff)
    qed
    show ?thesis using H l d ws by simp
  qed
  show ?thesis using one win len full MotionSensor_setValue_history by blast
qed

theorem history_window_witness:
  "length (history TemperatureSensor_new) \<le> 60
   \<and> history (fst (setValues [(JNum (Num 50), 1), (JNum (Num 3), 2)] TemperatureSensor_new
        (IoTGateway_new :: (device_ref, sensor_ref) IoTGateway))) = [(Num 40, 1), (Num 15, 2)]"
proof -
  have h: "length (history TemperatureSensor_new) \<le> 60"
    by (simp add: TemperatureSensor_new_def Sensor_new_def)
  from history_window [OF h, where x = "JNum (Num 50)" and now = 1
      and g = "IoTGateway_new :: (device_ref, sensor_ref) IoTGateway"
      and ws = "[(JNum (Num 50), 1), (JNum (Num 3), 2)]"
      and y = "JBool True" and now' = 7 and m = MotionSensor_new
      and g' = "IoTGateway_new :: (device_ref, sensor_ref) IoTGateway"]
  show ?thesis using h by (simp add: TemperatureSensor_new_def Sensor_new_def reading_def)
qed

text \<open>
  Claim C4 as stated fails on the motion sensor: after
  \<^verbatim>\<open>sensors.motion.setValue(true)\<close> at time 7 on the freshly constructed sensor, the
  history holds no entry for the write.
\<close>

theorem motion_history_counterexample:
  "(JBool True, 7) \<notin> set (history (fst (MotionSensor_setValue (JBool True) 7 MotionSensor_new
       (IoTGateway_new :: (device_ref, sensor_ref) IoTGateway))))"
  by (simp add: MotionSensor_setValue_def MotionSensor_new_def Sensor_new_def Let_def)

subsection \<open>Auxiliary facts\<close>

lemma Array_includes_iff: "Array_includes xs x = (x \<in> set xs)"
  by (induction xs) auto

lemma sumPower_acc:
  "sumPower heap acc m = acc + sum_list (map (\<lambda>kr. getCurrentPowerConsumption (heap (snd kr))) m)"
  by (induction m arbitrary: acc) (auto simp: add.assoc)

subsection \<open>What publishing leaves alone\<close>

lemma publish_frame [simp]:
  "g_devices (publish t m n g) = g_devices g"
  "g_sensors (publish t m n g) = g_sensors g"
  "subscribers (publish t m n g) = subscribers g"
  by (simp_all add: publish_def Let_def)

lemma published_trans:
  assumes "published g g'" and "published g' g''"
  shows "published g g''"
  using assms(2,1) by (induction rule: published.induct) (auto intro: published.intros)

lemma published_one: "published g (publish t m n g)"
  by (rule published_step [OF published_refl])

lemma published_frame:
  assumes "published g g'"
  shows "g_devices g' = g_devices g" "g_sensors g' = g_sensors g" "subscribers g' = subscribers g"
  using assms by (induction rule: published.induct) simp_all

subsection \<open>Device methods, component by component\<close>

lemma fst_turnOn: "fst (turnOn c now d g) = d\<lparr>isOn := True\<rparr>"
  by (simp add: turnOn_def Let_def)

lemma fst_turnOff: "fst (turnOff c now d g) = d\<lparr>isOn := False\<rparr>"
  by (simp add: turnOff_def Let_def)

lemma published_onStateChange: "published g (onStateChange c now d g)"
  by (simp add: onStateChange_def published_one published_refl)

lemma published_turnOn: "published g (snd (turnOn c now d g))"
  by (simp add: turnOn_def Let_def published_onStateChange published_refl)

lemma published_turnOff: "published g (snd (turnOff c now d g))"
  by (simp add: turnOff_def Let_def published_onStateChange published_refl)

lemma published_toggle: "published g (snd (toggle c now d g))"
  by (simp add: toggle_def published_turnOn published_turnOff)

lemma fst_setBrightness:
  "fst (setBrightness level now d g)
     = d\<lparr>brightness := Math_max (Num 0) (Math_min (Num 100) level)\<rparr>"
  by (simp add: setBrightness_def Let_def)

lemma published_setBrightness: "published g (snd (setBrightness level now d g))"
  by (simp add: setBrightness_def Let_def published_one published_refl)

lemma fst_setMode:
  "fst (setMode m now d g) = (if m \<in> set validModes then d\<lparr>mode := m\<rparr> else d)"
  by (simp add: setMode_def Let_def Array_includes_iff)

lemma published_setMode: "published g (snd (setMode m now d g))"
  by (simp add: setMode_def Let_def published_one published_refl)

lemma fst_setTargetTemperature:
  "fst (setTargetTemperature t now d g)
     = d\<lparr>targetTemperature := Math_max (Num 16) (Math_min (Num 30) t)\<rparr>"
  by (simp add: setTargetTemperature_def Let_def)

lemma published_setTargetTemperature: "published g (snd (setTargetTemperature t now d g))"
  by (simp add: setTargetTemperature_def Let_def published_one published_refl)

lemma fst_setFanSpeed:
  "fst (setFanSpeed sp d g) = (if sp \<in> set validSpeeds then d\<lparr>fanSpeed := sp\<rparr> else d)"
  by (simp add: setFanSpeed_def Array_includes_iff)

lemma snd_setFanSpeed: "snd (setFanSpeed sp d g) = g"
  by (simp add: setFanSpeed_def)

lemma published_WaterHeater_setTargetTemperature:
  "published g (snd (WaterHeater_setTargetTemperature t now d g))"
  by (simp add: WaterHeater_setTargetTemperature_def Let_def published_one published_refl)

lemma published_Sensor_setValue: "published g (snd (Sensor_setValue x now s g))"
  by (simp add: Sensor_setValue_def Let_def published_one published_refl)

lemma published_MotionSensor_setValue: "published g (snd (MotionSensor_setValue x now s g))"
  by (simp add: MotionSensor_setValue_def Let_def published_one published_refl)

subsection \<open>Calls on the global objects, component by component\<close>

lemma on_ac_proj:
  "devices (on_ac f w) = (devices w)\<lparr>ac := fst (f (ac (devices w)) (gateway w))\<rparr>"
  "sensors (on_ac f w) = sensors w"
  "gateway (on_ac f w) = snd (f (ac (devices w)) (gateway w))"
  by (simp_all add: on_ac_def split: prod.split)

lemma on_light1_proj:
  "devices (on_light1 f w) = (devices w)\<lparr>light1 := fst (f (light1 (devices w)) (gateway w))\<rparr>"
  "sensors (on_light1 f w) = sensors w"
  "gateway (on_light1 f w) = snd (f (light1 (devices w)) (gateway w))"
  by (simp_all add: on_light1_def split: prod.split)

lemma on_light2_proj:
  "devices (on_light2 f w) = (devices w)\<lparr>light2 := fst (f (light2 (devices w)) (gateway w))\<rparr>"
  "sensors (on_light2 f w) = sensors w"
  "gateway (on_light2 f w) = snd (f (light2 (devices w)) (gateway w))"
  by (simp_all add: on_light2_def split: prod.split)

lemma on_light3_proj:
  "devices (on_light3 f w) = (devices w)\<lparr>light3 := fst (f (light3 (devices w)) (gateway w))\<rparr>"
  "sensors (on_light3 f w) = sensors w"
  "gateway (on_light3 f w) = snd (f (light3 (devices w)) (gateway w))"
  by (simp_all add: on_light3_def split: prod.split)

lemma on_waterHeater_proj:
  "devices (on_waterHeater f w)
     = (devices w)\<lparr>waterHeater := fst (f (waterHeater (devices w)) (gateway w))\<rparr>"
  "sensors (on_waterHeater f w) = sensors w"
  "gateway (on_waterHeater f w) = snd (f (waterHeater (devices w)) (gateway w))"
  by (simp_all add: on_waterHeater_def split: prod.split)

lemmas on_proj = on_ac_proj on_light1_proj on_light2_proj on_light3_proj on_waterHeater_proj

lemma registerDevice_proj:
  "devices (registerDevice r now w) = bindDevice r (devices w)"
  "sensors (registerDevice r now w) = sensors w"
  "g_devices (gateway (registerDevice r now w))
     = Map_set (g_devices (gateway w)) (obj_id (deref (devices w) r)) r"
  by (simp_all add: registerDevice_def Let_def)

lemma registerSensor_proj:
  "devices (registerSensor r now w) = devices w"
  "sensors (registerSensor r now w) = bindSensor r (sensors w)"
  "g_devices (gateway (registerSensor r now w)) = g_devices (gateway w)"
  by (simp_all add: registerSensor_def Let_def)

lemma subscribe_g_devices: "g_devices (subscribe t c g) = g_devices g"
  by (simp add: subscribe_def Let_def)

lemma initializeApp_devices:
  "devices (initializeApp now w)
     = bindDevice Ref_waterHeater (bindDevice Ref_ac (bindDevice Ref_light3
         (bindDevice Ref_light2 (bindDevice Ref_light1 (devices w)))))"
  by (simp add: initializeApp_def Let_def registerDevice_proj registerSensor_proj)

lemma initializeApp_registry:
  "g_devices (gateway (initializeApp now World_new))
     = [(''light1'', Ref_light1), (''light2'', Ref_light2), (''light3'', Ref_light3),
        (''ac'', Ref_ac), (''waterHeater'', Ref_waterHeater)]"
  by (simp add: initializeApp_def Let_def registerDevice_proj registerSensor_proj
      subscribe_g_devices World_new_def devices_new_def IoTGateway_new_def
      Light_new_def AirConditioner_new_def WaterHeater_new_def)

lemma demo_registry:
  "g_devices (gateway demoWorld)
     = [(''light1'', Ref_light1), (''light2'', Ref_light2), (''light3'', Ref_light3),
        (''ac'', Ref_ac), (''waterHeater'', Ref_waterHeater)]"
  by (simp add: demoWorld_def on_proj
      published_frame [OF published_turnOn] published_frame [OF published_setBrightness]
      initializeApp_registry)

lemma demo_devices:
  "devices demoWorld =
     \<lparr>light1 = (Light_new ''light1'' ''Living Room Light'')
                 \<lparr>isOn := True, d_gateway := True, brightness := Num 50\<rparr>,
      light2 = (Light_new ''light2'' ''Bedroom Light'')\<lparr>d_gateway := True\<rparr>,
      light3 = (Light_new ''light3'' ''Kitchen Light'')\<lparr>d_gateway := True\<rparr>,
      ac = (AirConditioner_new ''ac'' ''Air Conditioner'')\<lparr>isOn := True, d_gateway := True\<rparr>,
      waterHeater = (WaterHeater_new ''waterHeater'' ''Water Heater'')
                 \<lparr>isOn := True, d_gateway := True\<rparr>\<rparr>"
  by (simp add: demoWorld_def on_proj fst_turnOn fst_setBrightness initializeApp_devices
      World_new_def devices_new_def Light_new_def AirConditioner_new_def WaterHeater_new_def)

subsection \<open>Total power\<close>

text \<open>
  Claim C5. The gateway's total power is the sum, over the entries of its device
  registry, of the power each registered device draws in its current state. In the sample
  state the first light (on, 50% brightness) draws 30 W, the air conditioner (on, cool
  mode) 1500 W and the water heater (on, not heating) 50 W, the two lights that are off
  draw nothing, and the total is 1580 W.
\<close>

theorem total_power_is_sum:
  "getTotalPowerConsumption heap g
     = sum_list (map (\<lambda>kr. getCurrentPowerConsumption (heap (snd kr))) (g_devices g))
   \<and> getCurrentPowerConsumption (deref (devices demoWorld) Ref_light1) = Num 30
   \<and> getCurrentPowerConsumption (deref (devices demoWorld) Ref_ac) = Num 1500
   \<and> getCurrentPowerConsumption (deref (devices demoWorld) Ref_waterHeater) = Num 50
   \<and> getTotalPowerConsumption (deref (devices demoWorld)) (gateway demoWorld) = Num 1580"
proof -
  have gen: "getTotalPowerConsumption heap g
     = sum_list (map (\<lambda>kr. getCurrentPowerConsumption (heap (snd kr))) (g_devices g))"
    for heap :: "'d \<Rightarrow> device_obj" and g :: "('d, 's) IoTGateway"
  proof -
    have "Num 0 = (0 :: jsnum)" by (simp add: zero_jsnum_def)
    then show ?thesis by (simp add: getTotalPowerConsumption_def sumPower_acc)
  qed
  have ex: "getCurrentPowerConsumption (deref (devices demoWorld) Ref_light1) = Num 30"
    "getCurrentPowerConsumption (deref (devices demoWorld) Ref_light2) = Num 0"
    "getCurrentPowerConsumption (deref (devices demoWorld) Ref_light3) = Num 0"
    "getCurrentPowerConsumption (deref (devices demoWorld) Ref_ac) = Num 1500"
    "getCurrentPowerConsumption (deref (devices demoWorld) Ref_waterHeater) = Num 50"
    by (simp_all add: demo_devices Light_new_def AirConditioner_new_def WaterHeater_new_def
        Light_getCurrentPowerConsumption_def AirConditioner_getCurrentPowerConsumption_def
        WaterHeater_getCurrentPowerConsumption_def multiplierOrDefault_def modeMultiplier_def)
  have tot: "getTotalPowerConsumption (deref (devices demoWorld)) (gateway demoWorld) = Num 1580"
    by (simp add: getTotalPowerConsumption_def demo_registry ex [simplified])
  show ?thesis using gen ex tot by simp
qed

theorem total_power_is_sum_witness:
  "getTotalPowerConsumption (deref (devices demoWorld)) (gateway demoWorld)
     = sum_list (map (\<lambda>kr. getCurrentPowerConsumption (deref (devices demoWorld) (snd kr)))
         (g_devices (gateway demoWorld)))
   \<and> getTotalPowerConsumption (deref (devices demoWorld)) (gateway demoWorld) = Num 1580"
  using total_power_is_sum [of "deref (devices demoWorld)" "gateway demoWorld"] by blast

subsection \<open>Device mutators and publishing\<close>

text \<open>
  Claim C2, as amended. For a device bound to the gateway: \<^verbatim>\<open>turnOn\<close> and
  \<^verbatim>\<open>turnOff\<close> publish one message on \<^verbatim>\<open>device/<id>/state\<close> exactly when they
  change \<^verbatim>\<open>isOn\<close>, and otherwise change nothing and publish nothing;
  \<^verbatim>\<open>setBrightness\<close> and the two \<^verbatim>\<open>setTargetTemperature\<close> methods (air conditioner
  and water heater) store what \<^verbatim>\<open>Math.max(lo, Math.min(hi, x))\<close> yields for their
  bounds and publish one message carrying it on every call, also when the value was
  already held; \<^verbatim>\<open>setMode\<close> with a legal mode stores it and publishes one message on
  every call, and with any other mode changes nothing and publishes nothing.
\<close>

theorem mutators_publish:
  fixes d :: "'a Device_scheme" and l :: Light and a :: AirConditioner and h :: WaterHeater
  assumes "d_gateway d" and "d_gateway l" and "d_gateway a" and "d_gateway h"
  shows "turnOn c now d g
           = (if isOn d then (d, g)
              else (d\<lparr>isOn := True\<rparr>,
                    publish (''device/'' @ d_id d @ ''/state'')
                      [(''id'', Str (d_id d)), (''name'', Str (d_name d)),
                       (''isOn'', Val (JBool True)),
                       (''power'', Val (JNum (c (d\<lparr>isOn := True\<rparr>))))] now g))
       \<and> turnOff c now d g
           = (if isOn d
              then (d\<lparr>isOn := False\<rparr>,
                    publish (''device/'' @ d_id d @ ''/state'')
                      [(''id'', Str (d_id d)), (''name'', Str (d_name d)),
                       (''isOn'', Val (JBool False)),
                       (''power'', Val (JNum (c (d\<lparr>isOn := False\<rparr>))))] now g)
              else (d, g))
       \<and> setBrightness level now l g
           = (l\<lparr>brightness := Math_max (Num 0) (Math_min (Num 100) level)\<rparr>,
              publish (''device/'' @ d_id l @ ''/brightness'')
                [(''id'', Str (d_id l)),
                 (''brightness'', Val (JNum (Math_max (Num 0) (Math_min (Num 100) level))))] now g)
       \<and> setMode m now a g
           = (if m \<in> {''cool'', ''heat'', ''auto'', ''fan''}
              then (a\<lparr>mode := m\<rparr>,
                    publish (''device/'' @ d_id a @ ''/mode'')
                      [(''id'', Str (d_id a)), (''mode'', Str m)] now g)
              else (a, g))
       \<and> setTargetTemperature t now a g
           = (a\<lparr>targetTemperature := Math_max (Num 16) (Math_min (Num 30) t)\<rparr>,
              publish (''device/'' @ d_id a @ ''/target-temp'')
                [(''id'', Str (d_id a)),
                 (''targetTemperature'', Val (JNum (Math_max (Num 16) (Math_min (Num 30) t))))]
                now g)
       \<and> WaterHeater_setTargetTemperature t now h g
           = (h\<lparr>wh_targetTemperature := Math_max (Num 30) (Math_min (Num 70) t)\<rparr>,
              publish (''device/'' @ d_id h @ ''/target-temp'')
                [(''id'', Str (d_id h)),
                 (''targetTemperature'', Val (JNum (Math_max (Num 30) (Math_min (Num 70) t))))]
                now g)"
  using assms
  by (simp add: turnOn_def turnOff_def onStateChange_def setBrightness_def setMode_def
      setTargetTemperature_def WaterHeater_setTargetTemperature_def Let_def Array_includes_iff
      validModes_def)

theorem mutators_publish_witness:
  "d_gateway boundLight \<and> d_gateway boundAC \<and> d_gateway boundHeater
   \<and> turnOn Light_getCurrentPowerConsumption 7 boundLight emptyGateway
       = (boundLight\<lparr>isOn := True\<rparr>,
          emptyGateway\<lparr>messageLog :=
            [(''device/light1/state'',
              [(''id'', Str ''light1''), (''name'', Str ''Living Room Light''),
               (''isOn'', Val (JBool True)), (''power'', Val (JNum (Num 60)))], 7)]\<rparr>)
   \<and> turnOn Light_getCurrentPowerConsumption 8 (boundLight\<lparr>isOn := True\<rparr>) emptyGateway
       = (boundLight\<lparr>isOn := True\<rparr>, emptyGateway)
   \<and> wh_targetTemperature (fst (WaterHeater_setTargetTemperature (Num 80) 7 boundHeater emptyGateway))
       = Num 70"
proof -
  have h: "d_gateway boundLight" "d_gateway boundAC" "d_gateway (boundLight\<lparr>isOn := True\<rparr>)"
    "d_gateway boundHeater"
    by (simp_all add: boundLight_def boundAC_def boundHeater_def Light_new_def
        AirConditioner_new_def WaterHeater_new_def)
  from mutators_publish [OF h(1) h(1) h(2) h(4), where c = Light_getCurrentPowerConsumption
      and now = 7 and g = emptyGateway and level = "Num 0" and m = "''cool''" and t = "Num 80"]
    mutators_publish [OF h(3) h(1) h(2) h(4), where c = Light_getCurrentPowerConsumption
      and now = 8 and g = emptyGateway and level = "Num 0" and m = "''cool''" and t = "Num 80"]
  show ?thesis using h(1,2,4)
    by (simp add: boundLight_def Light_new_def emptyGateway_def IoTGateway_new_def publish_def
        notify_def Let_def Light_getCurrentPowerConsumption_def)
qed

text \<open>
  Claim C2 as stated fails twice. \<^verbatim>\<open>setBrightness(100)\<close> on a light that already
  has brightness 100 leaves the light as it was and still publishes; and
  \<^verbatim>\<open>setFanSpeed('high')\<close> on an air conditioner with fan speed auto changes the fan
  speed and publishes nothing.
\<close>

theorem setters_counterexample:
  "fst (setBrightness (Num 100) 7 boundLight emptyGateway) = boundLight
   \<and> messageLog (snd (setBrightness (Num 100) 7 boundLight emptyGateway))
       = [(''device/light1/brightness'',
           [(''id'', Str ''light1''), (''brightness'', Val (JNum (Num 100)))], 7)]
   \<and> messageLog emptyGateway = []
   \<and> fanSpeed boundAC = ''auto''
   \<and> fanSpeed (fst (setFanSpeed ''high'' boundAC emptyGateway)) = ''high''
   \<and> snd (setFanSpeed ''high'' boundAC emptyGateway) = emptyGateway"
  by (simp add: setBrightness_def setFanSpeed_def boundLight_def boundAC_def Light_new_def
      AirConditioner_new_def emptyGateway_def IoTGateway_new_def publish_def notify_def Let_def
      validSpeeds_def)

subsection \<open>Validation of air-conditioner settings\<close>




subsection \<open>Mode and fan speed stay legal\<close>

lemma ac_apply_alt:
  "ac_apply (CallSetMode m now) st = setMode m now (fst st) (snd st)"
  "ac_apply (CallSetFanSpeed sp) st = setFanSpeed sp (fst st) (snd st)"
  by (cases st, simp)+

lemma ac_apply_valid:
  assumes "mode (fst st) \<in> set validModes" and "fanSpeed (fst st) \<in> set validSpeeds"
  shows "mode (fst (ac_apply c st)) \<in> set validModes
       \<and> fanSpeed (fst (ac_apply c st)) \<in> set validSpeeds"
proof (cases st)
  case (Pair d g)
  with assms show ?thesis
    by (cases c) (simp_all add: fst_setMode fst_setFanSpeed)
qed

lemma ac_calls_valid:
  "mode (fst st) \<in> set validModes \<Longrightarrow> fanSpeed (fst st) \<in> set validSpeeds \<Longrightarrow>
   mode (fst (ac_calls cs st)) \<in> set validModes
   \<and> fanSpeed (fst (ac_calls cs st)) \<in> set validSpeeds"
proof (induction cs arbitrary: st)
  case Nil
  then show ?case by simp
next
  case (Cons c cs)
  from ac_apply_valid [OF Cons.prems] Cons.IH [of "ac_apply c st"]
  show ?case by simp
qed

lemma multiplier_of_valid:
  "m \<in> set validModes \<Longrightarrow> Map_get modeMultiplier m = Some (multiplierOrDefault m)
     \<and> multiplierOrDefault m \<noteq> 0"
  by (auto simp: validModes_def modeMultiplier_def multiplierOrDefault_def)

text \<open>
  Claim C10. After construction (bound to the gateway or not) and any sequence of
  \<^verbatim>\<open>setMode\<close> and \<^verbatim>\<open>setFanSpeed\<close> calls with arbitrary strings, the mode is one of
  cool, heat, auto, fan and the fan speed one of low, medium, high, auto; the multiplier
  table has an entry for the mode and that entry is the multiplier used, so the fallback to 1
  in \<^verbatim>\<open>getCurrentPowerConsumption\<close> is not taken.
\<close>

theorem ac_settings_always_valid:
  "mode (fst (ac_calls cs ((AirConditioner_new i n)\<lparr>d_gateway := b\<rparr>, g)))
     \<in> {''cool'', ''heat'', ''auto'', ''fan''}
   \<and> fanSpeed (fst (ac_calls cs ((AirConditioner_new i n)\<lparr>d_gateway := b\<rparr>, g)))
     \<in> {''low'', ''medium'', ''high'', ''auto''}
   \<and> Map_get modeMultiplier (mode (fst (ac_calls cs ((AirConditioner_new i n)\<lparr>d_gateway := b\<rparr>, g))))
     = Some (multiplierOrDefault
         (mode (fst (ac_calls cs ((AirConditioner_new i n)\<lparr>d_gateway := b\<rparr>, g)))))"
proof -
  let ?st = "((AirConditioner_new i n)\<lparr>d_gateway := b\<rparr>, g)"
  have "mode (fst ?st) \<in> set validModes" "fanSpeed (fst ?st) \<in> set validSpeeds"
    by (simp_all add: AirConditioner_new_def validModes_def validSpeeds_def)
  from ac_calls_valid [OF this, of cs]
  have v: "mode (fst (ac_calls cs ?st)) \<in> set validModes"
    "fanSpeed (fst (ac_calls cs ?st)) \<in> set validSpeeds" by simp_all
  from multiplier_of_valid [OF v(1)] v show ?thesis
    by (simp add: validModes_def validSpeeds_def)
qed

theorem ac_settings_always_valid_witness:
  "mode (fst (ac_calls [CallSetMode ''heat'' 1, CallSetMode ''dry'' 2, CallSetFanSpeed ''turbo'']
       (boundAC, emptyGateway))) = ''heat''
   \<and> fanSpeed (fst (ac_calls [CallSetMode ''heat'' 1, CallSetMode ''dry'' 2, CallSetFanSpeed ''turbo'']
       (boundAC, emptyGateway))) = ''auto''
   \<and> Map_get modeMultiplier (mode (fst (ac_calls
       [CallSetMode ''heat'' 1, CallSetMode ''dry'' 2, CallSetFanSpeed ''turbo'']
       (boundAC, emptyGateway)))) = Some 1.2"
  using ac_settings_always_valid [where cs = "[CallSetMode ''heat'' 1, CallSetMode ''dry'' 2, CallSetFanSpeed ''turbo'']"
      and i = "''ac''" and n = "''Air Conditioner''" and b = True and g = emptyGateway]
  by (simp add: boundAC_def ac_apply_alt fst_setMode fst_setFanSpeed validModes_def
      validSpeeds_def AirConditioner_new_def multiplierOrDefault_def modeMultiplier_def)

subsection \<open>Sensor writes on the global objects\<close>

lemma fst_MotionSensor_setValue: "fst (MotionSensor_setValue x now s g) = s\<lparr>s_value := x\<rparr>"
  by (simp add: MotionSensor_setValue_def Let_def)

lemma setValue_devices: "devices (setValue r x now w) = devices w"
  by (cases r) (simp_all split: prod.split)

lemma setValue_published: "published (gateway w) (gateway (setValue r x now w))"
  by (cases r)
    (simp_all add: published_Sensor_setValue published_MotionSensor_setValue split: prod.split,
     (metis snd_conv published_Sensor_setValue published_MotionSensor_setValue)+)

lemma setValue_motion:
  "motion (sensors (setValue Ref_motion x now w)) = (motion (sensors w))\<lparr>s_value := x\<rparr>"
  "temperature (sensors (setValue Ref_motion x now w)) = temperature (sensors w)"
  "humidity (sensors (setValue Ref_motion x now w)) = humidity (sensors w)"
  "light (sensors (setValue Ref_motion x now w)) = light (sensors w)"
  by (simp_all add: MotionSensor_setValue_def Let_def)

lemma setValue_temperature:
  "temperature (sensors (setValue Ref_temperature x now w))
     = fst (Sensor_setValue x now (temperature (sensors w)) (gateway w))"
  "motion (sensors (setValue Ref_temperature x now w)) = motion (sensors w)"
  by (simp_all split: prod.split)

lemma setValue_light:
  "light (sensors (setValue Ref_light x now w))
     = fst (Sensor_setValue x now (light (sensors w)) (gateway w))"
  "motion (sensors (setValue Ref_light x now w)) = motion (sensors w)"
  by (simp_all split: prod.split)

declare setValue.simps [simp del]

lemma initializeApp_sensors:
  "sensors (initializeApp now w)
     = bindSensor Ref_light (bindSensor Ref_distance (bindSensor Ref_power
         (bindSensor Ref_humidity (bindSensor Ref_motion (bindSensor Ref_temperature (sensors w))))))"
  by (simp add: initializeApp_def Let_def registerDevice_proj registerSensor_proj)

lemma hotWorld_state:
  "s_value (temperature (sensors hotWorld)) = Num 27"
  "s_value (motion (sensors hotWorld)) = JBool True"
  "\<not> isOn (ac (devices hotWorld))"
  by (simp_all add: hotWorld_def setValue_devices setValue_motion setValue_temperature
      Sensor_setValue_value initializeApp_sensors initializeApp_devices
      World_new_def sensors_new_def devices_new_def TemperatureSensor_new_def Sensor_new_def
      AirConditioner_new_def)

lemma darkWorld_state:
  "s_value (light (sensors darkWorld)) = Num 100"
  "s_value (motion (sensors darkWorld)) = JBool True"
  "\<not> isOn (light1 (devices darkWorld))" "\<not> isOn (light2 (devices darkWorld))"
  "\<not> isOn (light3 (devices darkWorld))"
  by (simp_all add: darkWorld_def setValue_devices setValue_motion setValue_light
      Sensor_setValue_value initializeApp_sensors initializeApp_devices
      World_new_def sensors_new_def devices_new_def LightSensor_new_def Sensor_new_def
      Light_new_def)

lemma coolingWorld_state: "isOn (ac (devices coolingWorld))"
  by (simp add: coolingWorld_def on_proj fst_turnOn)

lemma triggered_proj:
  "devices (triggered rule action reason now w) = devices w"
  "sensors (triggered rule action reason now w) = sensors w"
  "gateway (triggered rule action reason now w)
     = publish ''automation/triggered''
         [(''rule'', Str rule), (''action'', Str action), (''reason'', Tpl reason)] now (gateway w)"
  by (simp_all add: triggered_def)

subsection \<open>The cooling-on rule\<close>

text \<open>
  Claim C6. With the cooling-on rule enabled (threshold 26, trigger count 0), the
  temperature sensor reading 27, the motion sensor reading \<^verbatim>\<open>true\<close> and the air
  conditioner off, one \<^verbatim>\<open>run()\<close> of the rule reports that it triggered; afterwards the
  air conditioner is on, its mode is cool, and the rule's trigger count is 1.
\<close>

theorem cooling_on_triggers:
  assumes "enabled r" and "triggerCount r = 0" and "temperatureThreshold r = 26"
    and "s_value (temperature (sensors w)) = Num 27"
    and "s_value (motion (sensors w)) = JBool True"
    and "\<not> isOn (ac (devices w))"
  shows "fst (run HVACCoolingRule_evaluate HVACCoolingRule_execute now r w)
       \<and> isOn (ac (devices (snd (snd (run HVACCoolingRule_evaluate HVACCoolingRule_execute now r w)))))
       \<and> mode (ac (devices (snd (snd (run HVACCoolingRule_evaluate HVACCoolingRule_execute now r w)))))
           = ''cool''
       \<and> triggerCount (fst (snd (run HVACCoolingRule_evaluate HVACCoolingRule_execute now r w))) = 1"
  using assms
  by (simp add: run_def HVACCoolingRule_evaluate_def HVACCoolingRule_execute_def Let_def
      triggered_proj on_proj fst_setMode fst_turnOn validModes_def)

theorem cooling_on_triggers_witness:
  "fst (run HVACCoolingRule_evaluate HVACCoolingRule_execute 3 HVACCoolingRule_new hotWorld)
   \<and> isOn (ac (devices (snd (snd
        (run HVACCoolingRule_evaluate HVACCoolingRule_execute 3 HVACCoolingRule_new hotWorld)))))
   \<and> mode (ac (devices (snd (snd
        (run HVACCoolingRule_evaluate HVACCoolingRule_execute 3 HVACCoolingRule_new hotWorld)))))
       = ''cool''
   \<and> triggerCount (fst (snd
        (run HVACCoolingRule_evaluate HVACCoolingRule_execute 3 HVACCoolingRule_new hotWorld))) = 1"
proof -
  have r: "enabled HVACCoolingRule_new" "triggerCount HVACCoolingRule_new = 0"
    "temperatureThreshold HVACCoolingRule_new = 26"
    by (simp_all add: HVACCoolingRule_new_def)
  show ?thesis
    by (rule cooling_on_triggers [OF r hotWorld_state])
qed

subsection \<open>The lights-on rule\<close>

lemma LightingOnRule_light3:
  "light3 (devices (snd (snd (run LightingOnRule_evaluate LightingOnRule_execute now r w))))
     = light3 (devices w)"
  by (simp add: run_def LightingOnRule_evaluate_def LightingOnRule_execute_def Let_def
      triggered_proj on_proj)

text \<open>
  Claim C7. With the lights-on rule enabled (threshold 300), all three lights off, the
  ambient-light sensor reading 100 and the motion sensor reading \<^verbatim>\<open>true\<close>, one
  \<^verbatim>\<open>run()\<close> of the rule reports that it triggered; afterwards lights 1 and 2 are on
  and light 3 is still off. Moreover, in every state and whether or not it triggers, a
  \<^verbatim>\<open>run()\<close> of the rule (also when dispatched as a rule object of the engine) leaves
  light 3 exactly as it was, so the rule never switches the third light on.
\<close>

theorem lights_on_triggers:
  "(enabled r \<and> lightThreshold r = 300
      \<and> s_value (light (sensors w)) = Num 100
      \<and> s_value (motion (sensors w)) = JBool True
      \<and> \<not> isOn (light1 (devices w)) \<and> \<not> isOn (light2 (devices w))
      \<and> \<not> isOn (light3 (devices w)) \<longrightarrow>
        fst (run LightingOnRule_evaluate LightingOnRule_execute now r w)
        \<and> isOn (light1 (devices (snd (snd (run LightingOnRule_evaluate LightingOnRule_execute now r w)))))
        \<and> isOn (light2 (devices (snd (snd (run LightingOnRule_evaluate LightingOnRule_execute now r w)))))
        \<and> \<not> isOn (light3 (devices (snd (snd (run LightingOnRule_evaluate LightingOnRule_execute now r w)))))
        \<and> triggerCount (fst (snd (run LightingOnRule_evaluate LightingOnRule_execute now r w)))
            = triggerCount r + 1)
   \<and> light3 (devices (snd (snd (run LightingOnRule_evaluate LightingOnRule_execute now' r' w'))))
       = light3 (devices w')
   \<and> light3 (devices (snd (snd (rule_run now' (LightingOnRuleObj r') w')))) = light3 (devices w')"
proof -
  have "fst (run LightingOnRule_evaluate LightingOnRule_execute now r w)
        \<and> isOn (light1 (devices (snd (snd (run LightingOnRule_evaluate LightingOnRule_execute now r w)))))
        \<and> isOn (light2 (devices (snd (snd (run LightingOnRule_evaluate LightingOnRule_execute now r w)))))
        \<and> \<not> isOn (light3 (devices (snd (snd (run LightingOnRule_evaluate LightingOnRule_execute now r w)))))
        \<and> triggerCount (fst (snd (run LightingOnRule_evaluate LightingOnRule_execute now r w)))
            = triggerCount r + 1"
    if "enabled r" and "lightThreshold r = 300" and "s_value (light (sensors w)) = Num 100"
      and "s_value (motion (sensors w)) = JBool True"
      and "\<not> isOn (light1 (devices w))" and "\<not> isOn (light2 (devices w))"
      and "\<not> isOn (light3 (devices w))"
    using that
    by (simp add: run_def LightingOnRule_evaluate_def LightingOnRule_execute_def Let_def
        triggered_proj on_proj fst_turnOn)
  moreover have "light3 (devices (snd (snd (rule_run now' (LightingOnRuleObj r') w'))))
      = light3 (devices w')"
  proof -
    obtain t r2 w2 where x: "run LightingOnRule_evaluate LightingOnRule_execute now' r' w' = (t, r2, w2)"
      by (cases "run LightingOnRule_evaluate LightingOnRule_execute now' r' w'") auto
    from LightingOnRule_light3 [of now' r' w'] x show ?thesis by simp
  qed
  ultimately show ?thesis using LightingOnRule_light3 [of now' r' w'] by blast
qed

theorem lights_on_triggers_witness:
  "fst (run LightingOnRule_evaluate LightingOnRule_execute 3 LightingOnRule_new darkWorld)
   \<and> isOn (light1 (devices (snd (snd
        (run LightingOnRule_evaluate LightingOnRule_execute 3 LightingOnRule_new darkWorld)))))
   \<and> isOn (light2 (devices (snd (snd
        (run LightingOnRule_evaluate LightingOnRule_execute 3 LightingOnRule_new darkWorld)))))
   \<and> \<not> isOn (light3 (devices (snd (snd
        (run LightingOnRule_evaluate LightingOnRule_execute 3 LightingOnRule_new darkWorld)))))
   \<and> light3 (devices (snd (snd
        (run LightingOnRule_evaluate LightingOnRule_execute 3 LightingOnRule_new darkWorld))))
       = light3 (devices darkWorld)"
proof -
  have r: "enabled LightingOnRule_new" "lightThreshold LightingOnRule_new = 300"
    by (simp_all add: LightingOnRule_new_def)
  from lights_on_triggers [where r = LightingOnRule_new and w = darkWorld and now = 3
      and r' = LightingOnRule_new and w' = darkWorld and now' = 3] r darkWorld_state
  show ?thesis by simp
qed

subsection \<open>The cooling-off rule\<close>

lemma off_quiet_step:
  assumes "enabled r" and "\<not> truthy (s_value (motion (sensors w)))" and "isOn (ac (devices w))"
    and "noMotionDuration r + 2 < thresholdMinutes r * 60"
  shows "run HVACOffRule_evaluate HVACOffRule_execute now r w
           = (False, r\<lparr>noMotionDuration := noMotionDuration r + 2\<rparr>, w)"
  using assms by (simp add: run_def HVACOffRule_evaluate_def Let_def)

lemma off_motion_step:
  assumes "enabled r" and "truthy (s_value (motion (sensors w)))"
  shows "run HVACOffRule_evaluate HVACOffRule_execute now r w
           = (False, r\<lparr>noMotionDuration := 0\<rparr>, w)"
  using assms by (simp add: run_def HVACOffRule_evaluate_def Let_def)

lemma off_trigger_step:
  assumes "enabled r" and "\<not> truthy (s_value (motion (sensors w)))" and "isOn (ac (devices w))"
    and "noMotionDuration r + 2 \<ge> thresholdMinutes r * 60"
  shows "fst (run HVACOffRule_evaluate HVACOffRule_execute now r w)"
    and "fst (snd (run HVACOffRule_evaluate HVACOffRule_execute now r w))
           = r\<lparr>noMotionDuration := 0, lastTriggered := Some now,
                triggerCount := triggerCount r + 1\<rparr>"
    and "\<not> isOn (ac (devices (snd (snd (run HVACOffRule_evaluate HVACOffRule_execute now r w)))))"
  using assms
  by (simp_all add: run_def HVACOffRule_evaluate_def HVACOffRule_execute_def Let_def
      triggered_proj on_proj fst_turnOff)

lemma coolingOffTicks_append:
  "coolingOffTicks (ms1 @ ms2) r w
     = (case coolingOffTicks ms1 r w of
          (t1, r1, w1) \<Rightarrow>
            (case coolingOffTicks ms2 r1 w1 of (t2, r2, w2) \<Rightarrow> (t1 @ t2, r2, w2)))"
  by (induction ms1 arbitrary: r w) (auto split: prod.split)

lemma coolingOffTicks_quiet:
  assumes "enabled r" and "isOn (ac (devices w))"
    and "\<forall>mt \<in> set ms. \<not> truthy (fst mt)"
    and "noMotionDuration r + 2 * length ms < thresholdMinutes r * 60"
  shows "fst (coolingOffTicks ms r w) = replicate (length ms) False
       \<and> fst (snd (coolingOffTicks ms r w))
           = r\<lparr>noMotionDuration := noMotionDuration r + 2 * length ms\<rparr>
       \<and> isOn (ac (devices (snd (snd (coolingOffTicks ms r w)))))"
  using assms
proof (induction ms arbitrary: r w)
  case Nil
  then show ?case by simp
next
  case (Cons mt ms)
  obtain m now where mt: "mt = (m, now)" by (cases mt)
  let ?w = "setValue Ref_motion m now w"
  let ?r = "r\<lparr>noMotionDuration := noMotionDuration r + 2\<rparr>"
  have q: "\<not> truthy (s_value (motion (sensors ?w)))" "isOn (ac (devices ?w))"
    using Cons.prems mt by (simp_all add: setValue_motion setValue_devices)
  have st: "run HVACOffRule_evaluate HVACOffRule_execute now r ?w = (False, ?r, ?w)"
    using off_quiet_step [OF Cons.prems(1) q] Cons.prems(4) by simp
  have ih: "fst (coolingOffTicks ms ?r ?w) = replicate (length ms) False
       \<and> fst (snd (coolingOffTicks ms ?r ?w))
           = ?r\<lparr>noMotionDuration := noMotionDuration ?r + 2 * length ms\<rparr>
       \<and> isOn (ac (devices (snd (snd (coolingOffTicks ms ?r ?w)))))"
    using Cons.prems q by (intro Cons.IH) simp_all
  obtain ts r' w' where c: "coolingOffTicks ms ?r ?w = (ts, r', w')"
    by (cases "coolingOffTicks ms ?r ?w") auto
  have "coolingOffTicks (mt # ms) r w = (False # ts, r', w')"
    using mt st c by simp
  then show ?case using ih c by simp
qed

text \<open>
  Claim C3. The cooling-off rule is enabled, its accumulator is 0, its threshold is 5
  minutes and the air conditioner is on. If motion is absent on each of 150 consecutive
  ticks, the rule triggers on the 150th tick and on no earlier one, the air conditioner is
  then off, the trigger count has grown by one and the accumulator is 0 again. If motion
  is absent on 148 ticks and present on tick 149, the accumulator is 0 after tick 149, and
  the rule triggers neither up to that tick nor on any of up to 149 further ticks without
  motion; the air conditioner stays on.
\<close>

theorem cooling_off_after_150_ticks:
  assumes "enabled r" and "noMotionDuration r = 0" and "thresholdMinutes r = 5"
    and "isOn (ac (devices w))"
  shows "(length ms = 150 \<and> (\<forall>mt \<in> set ms. \<not> truthy (fst mt)) \<longrightarrow>
            fst (coolingOffTicks ms r w) = replicate 149 False @ [True]
            \<and> \<not> isOn (ac (devices (snd (snd (coolingOffTicks ms r w)))))
            \<and> triggerCount (fst (snd (coolingOffTicks ms r w))) = triggerCount r + 1
            \<and> noMotionDuration (fst (snd (coolingOffTicks ms r w))) = 0)
       \<and> (length before = 148 \<and> (\<forall>mt \<in> set before. \<not> truthy (fst mt)) \<and> truthy m
            \<and> length after \<le> 149 \<and> (\<forall>mt \<in> set after. \<not> truthy (fst mt)) \<longrightarrow>
            noMotionDuration (fst (snd (coolingOffTicks (before @ [(m, now)]) r w))) = 0
            \<and> fst (coolingOffTicks (before @ [(m, now)] @ after) r w)
                = replicate (149 + length after) False
            \<and> isOn (ac (devices (snd (snd (coolingOffTicks (before @ [(m, now)] @ after) r w)))))
            \<and> triggerCount (fst (snd (coolingOffTicks (before @ [(m, now)] @ after) r w)))
                = triggerCount r)"
proof (intro conjI impI)
  assume h: "length ms = 150 \<and> (\<forall>mt \<in> set ms. \<not> truthy (fst mt))"
  define ms' where "ms' = butlast ms"
  obtain m' now' where l: "last ms = (m', now')" by (cases "last ms")
  have ne: "ms \<noteq> []" using h by auto
  have ms: "ms = ms' @ [(m', now')]" using ne l unfolding ms'_def
    by (metis append_butlast_last_id)
  have len: "length ms' = 149" using h unfolding ms'_def by simp
  have quiet: "\<forall>mt \<in> set ms'. \<not> truthy (fst mt)" "\<not> truthy m'"
    using h ms by auto
  obtain t1 r1 w1 where c1: "coolingOffTicks ms' r w = (t1, r1, w1)"
    by (cases "coolingOffTicks ms' r w") auto
  from coolingOffTicks_quiet [OF assms(1) assms(4) quiet(1)] assms(2,3) len c1
  have p1: "t1 = replicate 149 False" "r1 = r\<lparr>noMotionDuration := 298\<rparr>"
    "isOn (ac (devices w1))" by simp_all
  let ?w = "setValue Ref_motion m' now' w1"
  have q: "enabled r1" "\<not> truthy (s_value (motion (sensors ?w)))" "isOn (ac (devices ?w))"
    "noMotionDuration r1 + 2 \<ge> thresholdMinutes r1 * 60"
    using p1 assms quiet(2) by (simp_all add: setValue_motion setValue_devices)
  obtain t2 r2 w2 where c2: "run HVACOffRule_evaluate HVACOffRule_execute now' r1 ?w = (t2, r2, w2)"
    by (cases "run HVACOffRule_evaluate HVACOffRule_execute now' r1 ?w") auto
  from off_trigger_step [OF q, of now'] c2
  have p2: "t2" "r2 = r1\<lparr>noMotionDuration := 0, lastTriggered := Some now',
      triggerCount := triggerCount r1 + 1\<rparr>" "\<not> isOn (ac (devices w2))" by simp_all
  have res: "coolingOffTicks ms r w = (t1 @ [t2], r2, w2)"
    unfolding ms coolingOffTicks_append using c1 c2 by simp
  show "fst (coolingOffTicks ms r w) = replicate 149 False @ [True]"
    and "\<not> isOn (ac (devices (snd (snd (coolingOffTicks ms r w)))))"
    and "triggerCount (fst (snd (coolingOffTicks ms r w))) = triggerCount r + 1"
    and "noMotionDuration (fst (snd (coolingOffTicks ms r w))) = 0"
    unfolding res using p1 p2 by simp_all
next
  assume h: "length before = 148 \<and> (\<forall>mt \<in> set before. \<not> truthy (fst mt)) \<and> truthy m
            \<and> length after \<le> 149 \<and> (\<forall>mt \<in> set after. \<not> truthy (fst mt))"
  obtain t1 r1 w1 where c1: "coolingOffTicks before r w = (t1, r1, w1)"
    by (cases "coolingOffTicks before r w") auto
  have "noMotionDuration r + 2 * length before < thresholdMinutes r * 60"
    using h assms by simp
  from coolingOffTicks_quiet [OF assms(1) assms(4) _ this] h c1 assms(2)
  have p1: "t1 = replicate 148 False" "r1 = r\<lparr>noMotionDuration := 296\<rparr>"
    "isOn (ac (devices w1))" by simp_all
  let ?w = "setValue Ref_motion m now w1"
  have q: "enabled r1" "truthy (s_value (motion (sensors ?w)))"
    using p1 assms h by (simp_all add: setValue_motion)
  have c2: "run HVACOffRule_evaluate HVACOffRule_execute now r1 ?w
      = (False, r1\<lparr>noMotionDuration := 0\<rparr>, ?w)"
    by (rule off_motion_step [OF q])
  let ?r = "r1\<lparr>noMotionDuration := 0\<rparr>"
  have mid: "coolingOffTicks (before @ [(m, now)]) r w = (t1 @ [False], ?r, ?w)"
    unfolding coolingOffTicks_append using c1 c2 by simp
  obtain t3 r3 w3 where c3: "coolingOffTicks after ?r ?w = (t3, r3, w3)"
    by (cases "coolingOffTicks after ?r ?w") auto
  have e: "enabled ?r" "isOn (ac (devices ?w))"
    "noMotionDuration ?r + 2 * length after < thresholdMinutes ?r * 60"
    using p1 assms h by (simp_all add: setValue_devices)
  from coolingOffTicks_quiet [OF e(1,2) _ e(3)] h c3
  have p3: "t3 = replicate (length after) False" "triggerCount r3 = triggerCount r"
    "isOn (ac (devices w3))" using p1 by simp_all
  have res: "coolingOffTicks (before @ [(m, now)] @ after) r w = (t1 @ [False] @ t3, r3, w3)"
    using coolingOffTicks_append [of "before @ [(m, now)]" after r w] mid c3 by simp
  show "noMotionDuration (fst (snd (coolingOffTicks (before @ [(m, now)]) r w))) = 0"
    unfolding mid by simp
  show "fst (coolingOffTicks (before @ [(m, now)] @ after) r w) = replicate (149 + length after) False"
  proof -
    have "replicate (149 + length after) False
        = replicate 148 False @ replicate (Suc (length after)) False"
      unfolding replicate_add [symmetric] by simp
    then show ?thesis unfolding res using p1 p3 by simp
  qed
  show "isOn (ac (devices (snd (snd (coolingOffTicks (before @ [(m, now)] @ after) r w)))))"
    unfolding res using p3 by simp
  show "triggerCount (fst (snd (coolingOffTicks (before @ [(m, now)] @ after) r w))) = triggerCount r"
    unfolding res using p3 by simp
qed

theorem cooling_off_after_150_ticks_witness:
  "fst (coolingOffTicks (replicate 150 (JBool False, 0)) HVACOffRule_new coolingWorld)
     = replicate 149 False @ [True]
   \<and> \<not> isOn (ac (devices (snd (snd
         (coolingOffTicks (replicate 150 (JBool False, 0)) HVACOffRule_new coolingWorld)))))
   \<and> triggerCount (fst (snd
         (coolingOffTicks (replicate 150 (JBool False, 0)) HVACOffRule_new coolingWorld))) = 1
   \<and> fst (coolingOffTicks (replicate 148 (JBool False, 0) @ [(JBool True, 0)]
              @ replicate 149 (JBool False, 0)) HVACOffRule_new coolingWorld)
       = replicate 298 False
   \<and> isOn (ac (devices (snd (snd
         (coolingOffTicks (replicate 148 (JBool False, 0) @ [(JBool True, 0)]
              @ replicate 149 (JBool False, 0)) HVACOffRule_new coolingWorld)))))"
proof -
  have r: "enabled HVACOffRule_new" "noMotionDuration HVACOffRule_new = 0"
    "thresholdMinutes HVACOffRule_new = 5"
    by (simp_all add: HVACOffRule_new_def)
  have t: "triggerCount HVACOffRule_new = 0" by (simp add: HVACOffRule_new_def)
  from cooling_off_after_150_ticks [OF r coolingWorld_state,
      where ms = "replicate 150 (JBool False, 0)" and before = "replicate 148 (JBool False, 0)"
      and m = "JBool True" and now = 0 and after = "replicate 149 (JBool False, 0)"] t
  show ?thesis by simp
qed

subsection \<open>Bounded logs\<close>

lemma lastN_length: "length (lastN n xs) \<le> n"
  by (simp add: lastN_def)

lemma lastN_short: "length xs \<le> n \<Longrightarrow> lastN n xs = xs"
  by (simp add: lastN_def)

lemma lastN_append: "lastN n (lastN n xs @ ys) = lastN n (xs @ ys)"
proof (cases "length xs \<le> n")
  case True
  then show ?thesis by (simp add: lastN_short)
next
  case False
  then have "length (lastN n xs) = n" by (simp add: lastN_def)
  then have "lastN n (lastN n xs @ ys) = drop (length ys) (drop (length xs - n) xs @ ys)"
    by (simp add: lastN_def)
  also have "\<dots> = drop (length ys) (drop (length xs - n) (xs @ ys))" by simp
  also have "\<dots> = drop (length xs + length ys - n) (xs @ ys)"
    using False by (simp add: add.commute)
  finally show ?thesis by (simp add: lastN_def)
qed

lemma push_trim:
  assumes "length h \<le> n"
  shows "(if length (h @ [e]) > n then shift (h @ [e]) else h @ [e]) = lastN n (h @ [e])"
proof (cases "length h = n")
  case True
  then have "length (h @ [e]) - n = 1" by simp
  then show ?thesis using True by (cases h) (simp_all add: lastN_def shift_tl)
next
  case False
  with assms show ?thesis by (simp add: lastN_def)
qed

lemma publish_messageLog:
  "messageLog (publish t m n g)
     = (if 100 \<le> length (messageLog g) then tl (messageLog g) else messageLog g) @ [(t, m, n)]"
  by (cases "messageLog g") (simp_all add: publish_def Let_def shift_tl)

lemma publish_bounded:
  "length (messageLog g) \<le> 100 \<Longrightarrow> length (messageLog (publish t m n g)) \<le> 100"
  by (simp add: publish_messageLog)

lemma published_bounded:
  "published g g' \<Longrightarrow> length (messageLog g) \<le> 100 \<Longrightarrow> length (messageLog g') \<le> 100"
  by (induction rule: published.induct) (simp_all add: publish_bounded)

subsection \<open>Every call on the devices and sensors only publishes\<close>

lemma on_ac_published:
  assumes "\<And>d g. published g (snd (f d g))"
  shows "published (gateway w) (gateway (on_ac f w))"
  by (simp add: on_proj assms)

lemma on_light1_published:
  assumes "\<And>d g. published g (snd (f d g))"
  shows "published (gateway w) (gateway (on_light1 f w))"
  by (simp add: on_proj assms)

lemma on_light2_published:
  assumes "\<And>d g. published g (snd (f d g))"
  shows "published (gateway w) (gateway (on_light2 f w))"
  by (simp add: on_proj assms)

lemma on_light3_published:
  assumes "\<And>d g. published g (snd (f d g))"
  shows "published (gateway w) (gateway (on_light3 f w))"
  by (simp add: on_proj assms)

lemma on_waterHeater_published:
  assumes "\<And>d g. published g (snd (f d g))"
  shows "published (gateway w) (gateway (on_waterHeater f w))"
  by (simp add: on_proj assms)

lemmas on_published = on_ac_published on_light1_published on_light2_published
  on_light3_published on_waterHeater_published

lemma published_setFanSpeed: "published g (snd (setFanSpeed sp d g))"
  by (simp add: snd_setFanSpeed published_refl)

lemmas method_published = published_turnOn published_turnOff published_toggle
  published_setBrightness published_setMode published_setTargetTemperature
  published_setFanSpeed published_WaterHeater_setTargetTemperature

lemma deviceTurnOn_published: "published (gateway w) (gateway (deviceTurnOn r now w))"
  by (cases r) (simp_all add: on_published method_published)

lemma deviceTurnOff_published: "published (gateway w) (gateway (deviceTurnOff r now w))"
  by (cases r) (simp_all add: on_published method_published)

lemma deviceToggle_published: "published (gateway w) (gateway (deviceToggle r now w))"
  by (cases r) (simp_all add: on_published method_published)

lemma deviceSetBrightness_published:
  "published (gateway w) (gateway (deviceSetBrightness r level now w))"
  by (cases r) (simp_all add: on_published method_published published_refl)

lemma triggered_published: "published (gateway w) (gateway (triggered rule action reason now w))"
  by (simp add: triggered_proj published_one)

lemma HVACCoolingRule_execute_published:
  "published (gateway w) (gateway (snd (HVACCoolingRule_execute now r w)))"
  unfolding HVACCoolingRule_execute_def Let_def snd_conv
  by (intro published_trans [OF _ triggered_published] published_trans [OF on_ac_published on_ac_published]
      method_published)

lemma HVACOffRule_execute_published:
  "published (gateway w) (gateway (snd (HVACOffRule_execute now r w)))"
  unfolding HVACOffRule_execute_def Let_def snd_conv
  by (intro published_trans [OF _ triggered_published] on_ac_published method_published)

lemma LightingOnRule_execute_published:
  "published (gateway w) (gateway (snd (LightingOnRule_execute now r w)))"
  unfolding LightingOnRule_execute_def Let_def snd_conv
  by (intro published_trans [OF _ triggered_published]
      published_trans [OF on_light1_published on_light2_published] method_published)

lemma LightingOffRule_execute_published:
  "published (gateway w) (gateway (snd (LightingOffRule_execute now r w)))"
  unfolding LightingOffRule_execute_def Let_def snd_conv
  by (intro published_trans [OF _ triggered_published]
      published_trans [OF published_trans [OF on_light1_published on_light2_published]
        on_light3_published] method_published)

lemma HumidityRule_execute_published:
  "published (gateway w) (gateway (snd (HumidityRule_execute now r w)))"
  unfolding HumidityRule_execute_def Let_def snd_conv
  by (intro published_trans [OF _ triggered_published] published_trans [OF on_ac_published on_ac_published]
      method_published)

lemma run_published:
  assumes "\<And>r w. published (gateway w) (gateway (snd (execute now r w)))"
  shows "published (gateway w) (gateway (snd (snd (run evaluate execute now r w))))"
proof (cases "enabled r")
  case False
  then show ?thesis by (simp add: run_def published_refl)
next
  case True
  obtain c r1 where e: "evaluate r w = (c, r1)" by (cases "evaluate r w")
  obtain r2 w2 where x: "execute now r1 w = (r2, w2)" by (cases "execute now r1 w")
  from assms [of w r1] x have "published (gateway w) (gateway w2)" by simp
  then show ?thesis using True e x by (simp add: run_def published_refl)
qed

lemma rule_run_world:
  "snd (snd (rule_run now (HVACCoolingRuleObj r1) w))
     = snd (snd (run HVACCoolingRule_evaluate HVACCoolingRule_execute now r1 w))"
  "snd (snd (rule_run now (HVACOffRuleObj r2) w))
     = snd (snd (run HVACOffRule_evaluate HVACOffRule_execute now r2 w))"
  "snd (snd (rule_run now (LightingOnRuleObj r3) w))
     = snd (snd (run LightingOnRule_evaluate LightingOnRule_execute now r3 w))"
  "snd (snd (rule_run now (LightingOffRuleObj r4) w))
     = snd (snd (run LightingOffRule_evaluate LightingOffRule_execute now r4 w))"
  "snd (snd (rule_run now (HumidityRuleObj r5) w))
     = snd (snd (run HumidityRule_evaluate HumidityRule_execute now r5 w))"
  by (simp_all split: prod.split)

lemma rule_run_published:
  "published (gateway w) (gateway (snd (snd (rule_run now rule w))))"
  by (cases rule)
    (simp_all only: rule_run_world run_published HVACCoolingRule_execute_published
      HVACOffRule_execute_published LightingOnRule_execute_published
      LightingOffRule_execute_published HumidityRule_execute_published)

lemma evaluateRules_Cons:
  "evaluateRules now ((i, rule) # rs) lg w
     = (let t = fst (rule_run now rule w);
            rule' = fst (snd (rule_run now rule w));
            w' = snd (snd (rule_run now rule w));
            lg1 = (if t then (let l = lg @ [(i, rule_name rule', now)]
                              in if length l > 50 then shift l else l) else lg);
            rest = evaluateRules now rs lg1 w'
        in ((i, rule') # fst rest, fst (snd rest), snd (snd rest)))"
  by (simp add: Let_def split: prod.split)

lemma firing_Cons:
  "firing now ((i, rule) # rs) w
     = (if fst (rule_run now rule w)
        then [(i, rule_name (fst (snd (rule_run now rule w))), now)] else [])
       @ firing now rs (snd (snd (rule_run now rule w)))"
  by (simp split: prod.split)

lemma evaluateRules_published:
  "published (gateway w) (gateway (snd (snd (evaluateRules now rs lg w))))"
proof (induction rs arbitrary: lg w)
  case Nil
  then show ?case by (simp add: published_refl)
next
  case (Cons ir rs)
  obtain i rule where ir: "ir = (i, rule)" by (cases ir)
  show ?case unfolding ir evaluateRules_Cons Let_def snd_conv
    by (rule published_trans [OF rule_run_published Cons.IH])
qed

lemma evaluateRules_log:
  "length lg \<le> 50 \<Longrightarrow>
   fst (snd (evaluateRules now rs lg w)) = lastN 50 (lg @ firing now rs w)"
proof (induction rs arbitrary: lg w)
  case Nil
  then show ?case by (simp add: lastN_short)
next
  case (Cons ir rs)
  obtain i rule where ir: "ir = (i, rule)" by (cases ir)
  let ?t = "fst (rule_run now rule w)"
  let ?w = "snd (snd (rule_run now rule w))"
  let ?a = "(i, rule_name (fst (snd (rule_run now rule w))), now)"
  let ?lg1 = "if ?t then lastN 50 (lg @ [?a]) else lg"
  have l1: "length ?lg1 \<le> 50" using Cons.prems by (simp add: lastN_length)
  have "fst (snd (evaluateRules now (ir # rs) lg w)) = fst (snd (evaluateRules now rs ?lg1 ?w))"
    unfolding ir evaluateRules_Cons Let_def using push_trim [OF Cons.prems, of ?a] by simp
  also have "\<dots> = lastN 50 (?lg1 @ firing now rs ?w)" by (rule Cons.IH [OF l1])
  also have "\<dots> = lastN 50 (lg @ firing now (ir # rs) w)"
    unfolding ir firing_Cons using lastN_append [of 50 "lg @ [?a]" "firing now rs ?w"] by simp
  finally show ?case .
qed


lemma subscribe_messageLog: "messageLog (subscribe t c g) = messageLog g"
  by (simp add: subscribe_def Let_def)

lemma registerDevice_bounded:
  "length (messageLog (gateway w)) \<le> 100 \<Longrightarrow>
   length (messageLog (gateway (registerDevice r now w))) \<le> 100"
  by (simp add: registerDevice_def Let_def publish_bounded)

lemma registerSensor_bounded:
  "length (messageLog (gateway w)) \<le> 100 \<Longrightarrow>
   length (messageLog (gateway (registerSensor r now w))) \<le> 100"
  by (simp add: registerSensor_def Let_def publish_bounded)

lemma AutomationEngine_evaluate_proj:
  "activityLog (fst (AutomationEngine_evaluate now e w))
     = fst (snd (evaluateRules now (rules e) (activityLog e) w))"
  "snd (AutomationEngine_evaluate now e w)
     = snd (snd (evaluateRules now (rules e) (activityLog e) w))"
  by (simp_all add: AutomationEngine_evaluate_def split: prod.split)

lemma step_bounded:
  assumes "length (messageLog (gateway (snd st))) \<le> 100"
    and "length (activityLog (fst st)) \<le> 50"
  shows "length (messageLog (gateway (snd (step c st)))) \<le> 100
       \<and> length (activityLog (fst (step c st))) \<le> 50"
proof -
  obtain e w where st: "st = (e, w)" by (cases st)
  have m: "length (messageLog (gateway w)) \<le> 100" and a: "length (activityLog e) \<le> 50"
    using assms st by simp_all
  note pb = published_bounded [OF _ m]
  show ?thesis
  proof (cases c)
    case (Evaluate now)
    then show ?thesis unfolding st
      by (simp add: AutomationEngine_evaluate_proj evaluateRules_log [OF a] lastN_length
          pb [OF evaluateRules_published])
  next
    case (SimulatePower now)
    then show ?thesis unfolding st using a
      by (simp add: PowerSensor_simulate_def pb [OF setValue_published])
  qed (simp_all add: st m a publish_bounded subscribe_messageLog registerDevice_bounded
      registerSensor_bounded pb [OF setValue_published] pb [OF deviceTurnOn_published]
      pb [OF deviceTurnOff_published] pb [OF deviceToggle_published]
      pb [OF deviceSetBrightness_published] pb [OF on_ac_published] pb [OF on_waterHeater_published]
      method_published addRule_def removeRule_def enableRule_def disableRule_def toggleRule_def
      split: option.split)
qed

lemma steps_bounded:
  "length (messageLog (gateway (snd st))) \<le> 100 \<Longrightarrow> length (activityLog (fst st)) \<le> 50 \<Longrightarrow>
   length (messageLog (gateway (snd (steps cs st)))) \<le> 100
   \<and> length (activityLog (fst (steps cs st))) \<le> 50"
proof (induction cs arbitrary: st)
  case Nil
  then show ?case by simp
next
  case (Cons c cs)
  from step_bounded [OF Cons.prems, of c] show ?case by (simp add: Cons.IH)
qed

lemma initial_logs:
  "messageLog (gateway World_new) = []" "activityLog automationEngine_new = []"
  by (simp_all add: World_new_def IoTGateway_new_def automationEngine_new_def addRule_def
      AutomationEngine_new_def)

text \<open>
  Claim C8. From the program's initial state, after any sequence of calls on the core
  (publishing, subscribing, registering, sensor writes, device methods, rule management
  and rule evaluations) the gateway's message log holds at most 100 entries and the
  engine's activity log at most 50. A \<^verbatim>\<open>publish\<close> appends its entry after dropping the
  oldest one when 100 were held; an evaluation leaves the last 50 of the old activity log
  followed by one entry for every rule that triggered, in order.
\<close>

theorem logs_bounded:
  "length (messageLog (gateway (snd (steps cs (automationEngine_new, World_new))))) \<le> 100
   \<and> length (activityLog (fst (steps cs (automationEngine_new, World_new)))) \<le> 50
   \<and> messageLog (publish t m n g)
       = (if 100 \<le> length (messageLog g) then tl (messageLog g) else messageLog g) @ [(t, m, n)]
   \<and> (length (activityLog e) \<le> 50 \<longrightarrow>
        activityLog (fst (AutomationEngine_evaluate now e w))
          = lastN 50 (activityLog e @ firing now (rules e) w))"
proof -
  have "length (messageLog (gateway (snd (automationEngine_new, World_new)))) \<le> 100"
    "length (activityLog (fst (automationEngine_new, World_new))) \<le> 50"
    by (simp_all add: initial_logs)
  from steps_bounded [OF this, of cs] show ?thesis
    by (simp add: publish_messageLog AutomationEngine_evaluate_proj evaluateRules_log)
qed

theorem logs_bounded_witness:
  "length (messageLog (gateway (snd (steps [Publish ''topic'' [] 1, Evaluate 2, TurnOn Ref_ac 3]
       (automationEngine_new, World_new))))) \<le> 100
   \<and> length (activityLog (fst (steps [Publish ''topic'' [] 1, Evaluate 2, TurnOn Ref_ac 3]
       (automationEngine_new, World_new)))) \<le> 50
   \<and> messageLog (publish ''topic'' [] 1 emptyGateway) = [(''topic'', [], 1)]
   \<and> length (activityLog AutomationEngine_new) \<le> 50
   \<and> activityLog (fst (AutomationEngine_evaluate 2 AutomationEngine_new World_new)) = []"
  using logs_bounded [where cs = "[Publish ''topic'' [] 1, Evaluate 2, TurnOn Ref_ac 3]"
      and t = "''topic''" and m = "[]" and n = 1 and g = emptyGateway
      and e = AutomationEngine_new and now = 2 and w = World_new]
  by (simp add: emptyGateway_def IoTGateway_new_def AutomationEngine_new_def lastN_def)

end
